theory Spec2Isabelle
  imports Complex_Main
begin

section \<open>Data model of \<^verbatim>\<open>pkg/controller/dgraph/models/pod.go\<close>\<close>

text \<open>
  \<^verbatim>\<open>dgraph.ID\<close> is the pair of the external id (\<^verbatim>\<open>Xid\<close>) and the internal id
  (\<^verbatim>\<open>UID\<close>) every entity embeds. The empty string is Go's zero value and means
  "no id".
\<close>

record ID =
  Xid :: string
  UID :: string

text \<open>
  The entity types of the other files of package \<^verbatim>\<open>models\<close>. The pod handler builds
  its relations from an \<^verbatim>\<open>ID\<close> alone (\<^verbatim>\<open>&Node{ID: dgraph.ID{...}}\<close>), so a related
  entity is the \<^verbatim>\<open>ID\<close> it embeds; containers, labels and services are only passed
  through, and are their \<^verbatim>\<open>ID\<close> as well. A volume claim also carries the capacity
  that \<^verbatim>\<open>getPodVolumes\<close> reads.
\<close>

type_synonym Node = ID
type_synonym Namespace = ID
type_synonym Deployment = ID
type_synonym Replicaset = ID
type_synonym Statefulset = ID
type_synonym Daemonset = ID
type_synonym Job = ID

type_synonym Container = ID
type_synonym Label = ID
type_synonym Service = ID

record 'f PersistentVolumeClaim = ID +
  StorageCapacity :: 'f

text \<open>
  \<^verbatim>\<open>type Pod struct\<close>. The type \<open>'f\<close> stands for \<^verbatim>\<open>float64\<close>: the code only adds
  such values and starts from \<^verbatim>\<open>0.0\<close>, so the model asks for a zero and an addition
  and nothing else. The struct embeds \<^verbatim>\<open>dgraph.ID\<close>, hence the record extends \<open>ID\<close>.
  A pointer field is an \<open>option\<close> (\<open>None\<close> for \<^verbatim>\<open>nil\<close>), a slice is a list (\<^verbatim>\<open>nil\<close> and
  the empty slice are both \<open>[]\<close>; \<^verbatim>\<open>omitempty\<close> drops either). The struct refers to
  itself through \<^verbatim>\<open>Pods []*Pod\<close>; the element type is the parameter \<open>'p\<close>, and the
  pods nested in \<^verbatim>\<open>Pods\<close> are pods whose own \<^verbatim>\<open>Pods\<close> stays empty.
\<close>

record ('f, 'p) PodOf = ID +
  IsPod :: bool
  Name :: string
  StartTime :: string
  EndTime :: string
  Containers :: "Container list"
  Pods :: "'p list"
  Count :: 'f
  Node :: "Node option"
  Namespace :: "Namespace option"
  Deployment :: "Deployment option"
  Replicaset :: "Replicaset option"
  Statefulset :: "Statefulset option"
  Daemonset :: "Daemonset option"
  Job :: "Job option"
  Pvcs :: "'f PersistentVolumeClaim list"
  CPURequest :: 'f
  CPULimit :: 'f
  MemoryRequest :: 'f
  MemoryLimit :: 'f
  StorageRequest :: 'f
  Type :: string
  Cid :: "Service list"
  Labels :: "Label list"

type_synonym 'f PodLeaf = "('f, unit) PodOf"
type_synonym 'f Pod = "('f, 'f PodLeaf) PodOf"

text \<open>The zero value \<^verbatim>\<open>Pod{}\<close>: what a composite literal leaves in the fields it omits.\<close>

definition Pod0 :: "('f::zero, 'p) PodOf" where
  "Pod0 = \<lparr>Xid = '''', UID = '''', IsPod = False, Name = '''', StartTime = '''',
     EndTime = '''', Containers = [], Pods = [], Count = 0, Node = None,
     Namespace = None, Deployment = None, Replicaset = None, Statefulset = None,
     Daemonset = None, Job = None, Pvcs = [], CPURequest = 0, CPULimit = 0,
     MemoryRequest = 0, MemoryLimit = 0, StorageRequest = 0, Type = '''', Cid = [],
     Labels = []\<rparr>"

text \<open>\<^verbatim>\<open>type Metrics struct\<close> (the fields are prefixed: \<open>Pod\<close> has the same names).\<close>

record 'f Metrics =
  mCPURequest :: 'f
  mCPULimit :: 'f
  mMemoryRequest :: 'f
  mMemoryLimit :: 'f

text \<open>\<^verbatim>\<open>const IsPod = "isPod"\<close>, the discriminator predicate passed to \<^verbatim>\<open>dgraph.GetUID\<close>.\<close>

definition IsPodConst :: string where
  "IsPodConst = ''isPod''"

subsection \<open>The observed cluster object\<close>

text \<open>
  The fields of \<^verbatim>\<open>api_v1.Pod\<close> that the handler reads. A \<^verbatim>\<open>time.Time\<close> is its offset
  from the zero instant, so \<^verbatim>\<open>IsZero\<close> is equality with \<open>0\<close>; the deletion timestamp
  is a pointer, and \<^verbatim>\<open>(*metav1.Time).IsZero\<close> is true on \<^verbatim>\<open>nil\<close>. \<^verbatim>\<open>Labels\<close> is a Go map;
  the list is the order in which \<^verbatim>\<open>range\<close> happens to visit it.
\<close>

type_synonym Time = int

record OwnerReference =
  OwnerKind :: string
  OwnerName :: string

record Volume =
  VolumeName :: string
  ClaimName :: "string option"

record K8sPod =
  k8sName :: string
  k8sNamespace :: string
  k8sCreationTimestamp :: Time
  k8sDeletionTimestamp :: "Time option"
  k8sNodeName :: string
  k8sVolumes :: "Volume list"
  k8sOwnerReferences :: "OwnerReference list"
  k8sLabels :: "(string \<times> string) list"

fun IsZero :: "Time option \<Rightarrow> bool" where
  "IsZero None = True"
| "IsZero (Some t) = (t = 0)"

subsection \<open>Errors, mutation modes and the store's answer\<close>

text \<open>
  A Go \<^verbatim>\<open>error\<close> is the message it carries. \<^verbatim>\<open>api.Assigned\<close> holds the map \<^verbatim>\<open>Uids\<close>;
  indexing a Go map at a missing key gives the zero value, here the empty id.
\<close>

datatype error = Error string

datatype mode = CREATE | UPDATE

record Assigned =
  Uids :: "string \<rightharpoonup> string"

definition uidsAt :: "Assigned \<Rightarrow> string \<Rightarrow> string" where
  "uidsAt assigned key = (case Uids assigned key of None \<Rightarrow> '''' | Some u \<Rightarrow> u)"

text \<open>
  A call either returns or panics: \<^verbatim>\<open>counts[index]\<close> is bounds-checked by the Go
  runtime, and an index out of range aborts the call.
\<close>

datatype 'a outcome = Panicked | Returned 'a

section \<open>Collaborators\<close>

text \<open>
  Modelled from the spec: the functions of package \<^verbatim>\<open>dgraph\<close> and of the other
  files of package \<^verbatim>\<open>models\<close> that \<^verbatim>\<open>pod.go\<close> calls are not among the sources; the
  spec (sections 4.1 and 6) gives their call contracts only. They are therefore
  parameters: a record \<open>env\<close> of functions over an arbitrary store state \<open>'s\<close>.
  \<^verbatim>\<open>GetUID\<close> is the identity lookup, "pure lookup, safe to call repeatedly", and
  reads the store; every other collaborator may change the store and returns the
  new one. \<^verbatim>\<open>FormatRFC3339\<close> is \<^verbatim>\<open>t.Format(time.RFC3339)\<close>.
\<close>

record ('s, 'f) Env =
  GetUID :: "string \<Rightarrow> string \<Rightarrow> 's \<Rightarrow> string"
  MutateNode :: "'f Pod \<Rightarrow> mode \<Rightarrow> 's \<Rightarrow> (error + Assigned) \<times> 's"
  createOrGetNodeByID :: "string \<Rightarrow> 's \<Rightarrow> (error + string) \<times> 's"
  CreateOrGetNamespaceByID :: "string \<Rightarrow> 's \<Rightarrow> string \<times> 's"
  CreateOrGetDeploymentByID :: "string \<Rightarrow> 's \<Rightarrow> string \<times> 's"
  CreateOrGetReplicasetByID :: "string \<Rightarrow> 's \<Rightarrow> string \<times> 's"
  CreateOrGetStatefulsetByID :: "string \<Rightarrow> 's \<Rightarrow> string \<times> 's"
  CreateOrGetJobByID :: "string \<Rightarrow> 's \<Rightarrow> string \<times> 's"
  CreateOrGetDaemonsetByID :: "string \<Rightarrow> 's \<Rightarrow> string \<times> 's"
  CreateOrGetPersistentVolumeClaimByID :: "string \<Rightarrow> 's \<Rightarrow> string \<times> 's"
  getPVCFromUID :: "string \<Rightarrow> 's \<Rightarrow> (error + 'f PersistentVolumeClaim) \<times> 's"
  StoreAndRetrieveContainersAndMetrics ::
    "K8sPod \<Rightarrow> string \<Rightarrow> string \<Rightarrow> 's \<Rightarrow> (Container list \<times> 'f Metrics) \<times> 's"
  deleteContainersInTerminatedPod :: "Container list \<Rightarrow> Time \<Rightarrow> 's \<Rightarrow> 's"
  GetLabel :: "string \<Rightarrow> string \<Rightarrow> 's \<Rightarrow> Label \<times> 's"
  FormatRFC3339 :: "Time \<Rightarrow> string"

text \<open>
  What the handler did to its collaborators is kept beside the store: every call
  that may change the store is recorded, in order, with its arguments and its
  answer. Claims about which mutation was issued, with which entity, are claims
  about this trace.
\<close>

datatype Kind =
  KNamespace | KDeployment | KReplicaset | KStatefulset | KJob | KDaemonset
| KPersistentVolumeClaim

datatype 'f Event =
  EvMutateNode "'f Pod" mode "error + Assigned"
| EvCreateOrGetNode string "error + string"
| EvCreateOrGet Kind string string
| EvGetPVC string "error + 'f PersistentVolumeClaim"
| EvStoreContainers K8sPod string string "Container list" "'f Metrics"
| EvDeleteContainers "Container list" Time
| EvGetLabel string string Label

record ('s, 'f) World =
  store :: 's
  trace :: "'f Event list"

definition callMutateNode ::
  "('s, 'f) Env \<Rightarrow> 'f Pod \<Rightarrow> mode \<Rightarrow> ('s, 'f) World \<Rightarrow> (error + Assigned) \<times> ('s, 'f) World" where
  "callMutateNode env pod m w =
     (let (r, s) = MutateNode env pod m (store w)
      in (r, \<lparr>store = s, trace = trace w @ [EvMutateNode pod m r]\<rparr>))"

definition callCreateOrGetNode ::
  "('s, 'f) Env \<Rightarrow> string \<Rightarrow> ('s, 'f) World \<Rightarrow> (error + string) \<times> ('s, 'f) World" where
  "callCreateOrGetNode env xid w =
     (let (r, s) = createOrGetNodeByID env xid (store w)
      in (r, \<lparr>store = s, trace = trace w @ [EvCreateOrGetNode xid r]\<rparr>))"

fun createOrGetByID :: "('s, 'f) Env \<Rightarrow> Kind \<Rightarrow> string \<Rightarrow> 's \<Rightarrow> string \<times> 's" where
  "createOrGetByID env KNamespace = CreateOrGetNamespaceByID env"
| "createOrGetByID env KDeployment = CreateOrGetDeploymentByID env"
| "createOrGetByID env KReplicaset = CreateOrGetReplicasetByID env"
| "createOrGetByID env KStatefulset = CreateOrGetStatefulsetByID env"
| "createOrGetByID env KJob = CreateOrGetJobByID env"
| "createOrGetByID env KDaemonset = CreateOrGetDaemonsetByID env"
| "createOrGetByID env KPersistentVolumeClaim = CreateOrGetPersistentVolumeClaimByID env"

definition callCreateOrGet ::
  "('s, 'f) Env \<Rightarrow> Kind \<Rightarrow> string \<Rightarrow> ('s, 'f) World \<Rightarrow> string \<times> ('s, 'f) World" where
  "callCreateOrGet env kind xid w =
     (let (uid, s) = createOrGetByID env kind xid (store w)
      in (uid, \<lparr>store = s, trace = trace w @ [EvCreateOrGet kind xid uid]\<rparr>))"

definition callGetPVCFromUID ::
  "('s, 'f) Env \<Rightarrow> string \<Rightarrow> ('s, 'f) World
     \<Rightarrow> (error + 'f PersistentVolumeClaim) \<times> ('s, 'f) World" where
  "callGetPVCFromUID env uid w =
     (let (r, s) = getPVCFromUID env uid (store w)
      in (r, \<lparr>store = s, trace = trace w @ [EvGetPVC uid r]\<rparr>))"

definition callStoreContainers ::
  "('s, 'f) Env \<Rightarrow> K8sPod \<Rightarrow> string \<Rightarrow> string \<Rightarrow> ('s, 'f) World
     \<Rightarrow> (Container list \<times> 'f Metrics) \<times> ('s, 'f) World" where
  "callStoreContainers env k8sPod uid namespaceUID w =
     (let ((containers, metrics), s) =
            StoreAndRetrieveContainersAndMetrics env k8sPod uid namespaceUID (store w)
      in ((containers, metrics),
          \<lparr>store = s,
           trace = trace w @ [EvStoreContainers k8sPod uid namespaceUID containers metrics]\<rparr>))"

definition callDeleteContainers ::
  "('s, 'f) Env \<Rightarrow> Container list \<Rightarrow> Time \<Rightarrow> ('s, 'f) World \<Rightarrow> ('s, 'f) World" where
  "callDeleteContainers env containers t w =
     \<lparr>store = deleteContainersInTerminatedPod env containers t (store w),
      trace = trace w @ [EvDeleteContainers containers t]\<rparr>"

definition callGetLabel ::
  "('s, 'f) Env \<Rightarrow> string \<Rightarrow> string \<Rightarrow> ('s, 'f) World \<Rightarrow> Label \<times> ('s, 'f) World" where
  "callGetLabel env key val w =
     (let (l, s) = GetLabel env key val (store w)
      in (l, \<lparr>store = s, trace = trace w @ [EvGetLabel key val l]\<rparr>))"

text \<open>The \<^verbatim>\<open>error\<close> half of a Go result pair: \<^verbatim>\<open>nil\<close> is \<open>None\<close>.\<close>

fun errOf :: "error + 'a \<Rightarrow> error option" where
  "errOf (Inl err) = Some err"
| "errOf (Inr _) = None"

section \<open>The pod handler\<close>

subsection \<open>\<^verbatim>\<open>setPodOwners\<close>\<close>

text \<open>
  The body of the \<^verbatim>\<open>for _, owner := range owners\<close> loop: the chain of comparisons on
  \<^verbatim>\<open>owner.Kind\<close>, in the source's order. The last branch only logs.
\<close>

definition setPodOwner ::
  "('s, 'f) Env \<Rightarrow> K8sPod \<Rightarrow> OwnerReference \<Rightarrow> 'f Pod \<Rightarrow> ('s, 'f) World
     \<Rightarrow> 'f Pod \<times> ('s, 'f) World" where
  "setPodOwner env k8sPod owner pod w =
     (if OwnerKind owner = ''Deployment'' then
        let deploymentXID = k8sNamespace k8sPod @ '':'' @ OwnerName owner;
            (deploymentUID, w1) = callCreateOrGet env KDeployment deploymentXID w
        in (if deploymentUID \<noteq> ''''
            then pod\<lparr>Deployment := Some \<lparr>Xid = deploymentXID, UID = deploymentUID\<rparr>\<rparr>
            else pod, w1)
      else if OwnerKind owner = ''ReplicaSet'' then
        let replicasetXID = k8sNamespace k8sPod @ '':'' @ OwnerName owner;
            (replicasetUID, w1) = callCreateOrGet env KReplicaset replicasetXID w
        in (if replicasetUID \<noteq> ''''
            then pod\<lparr>Replicaset := Some \<lparr>Xid = replicasetXID, UID = replicasetUID\<rparr>\<rparr>
            else pod, w1)
      else if OwnerKind owner = ''StatefulSet'' then
        let statefulsetXID = k8sNamespace k8sPod @ '':'' @ OwnerName owner;
            (statefulsetUID, w1) = callCreateOrGet env KStatefulset statefulsetXID w
        in (if statefulsetUID \<noteq> ''''
            then pod\<lparr>Statefulset := Some \<lparr>Xid = statefulsetXID, UID = statefulsetUID\<rparr>\<rparr>
            else pod, w1)
      else if OwnerKind owner = ''Job'' then
        let jobXID = k8sNamespace k8sPod @ '':'' @ OwnerName owner;
            (jobUID, w1) = callCreateOrGet env KJob jobXID w
        in (if jobUID \<noteq> ''''
            then pod\<lparr>Job := Some \<lparr>Xid = jobXID, UID = jobUID\<rparr>\<rparr>
            else pod, w1)
      else if OwnerKind owner = ''DaemonSet'' then
        let daemonsetXID = k8sNamespace k8sPod @ '':'' @ OwnerName owner;
            (daemonsetUID, w1) = callCreateOrGet env KDaemonset daemonsetXID w
        in (if daemonsetUID \<noteq> ''''
            then pod\<lparr>Daemonset := Some \<lparr>Xid = daemonsetXID, UID = daemonsetUID\<rparr>\<rparr>
            else pod, w1)
      else (pod, w))"

fun setPodOwnersLoop ::
  "('s, 'f) Env \<Rightarrow> K8sPod \<Rightarrow> OwnerReference list \<Rightarrow> 'f Pod \<Rightarrow> ('s, 'f) World
     \<Rightarrow> 'f Pod \<times> ('s, 'f) World" where
  "setPodOwnersLoop env k8sPod [] pod w = (pod, w)"
| "setPodOwnersLoop env k8sPod (owner # owners) pod w =
     (let (pod1, w1) = setPodOwner env k8sPod owner pod w
      in setPodOwnersLoop env k8sPod owners pod1 w1)"

text \<open>
  \<^verbatim>\<open>setPodOwners(pod *Pod, k8sPod)\<close> updates the pod in place; the model returns it.
  The early return on \<^verbatim>\<open>owners == nil\<close> is the loop over no owner.
\<close>

definition setPodOwners ::
  "('s, 'f) Env \<Rightarrow> 'f Pod \<Rightarrow> K8sPod \<Rightarrow> ('s, 'f) World \<Rightarrow> 'f Pod \<times> ('s, 'f) World" where
  "setPodOwners env pod k8sPod w =
     setPodOwnersLoop env k8sPod (k8sOwnerReferences k8sPod) pod w"

subsection \<open>\<^verbatim>\<open>getPodVolumes\<close>\<close>

text \<open>
  The loop over \<^verbatim>\<open>k8sPod.Spec.Volumes\<close>, with its two accumulators \<^verbatim>\<open>podVolumes\<close> and
  \<^verbatim>\<open>storage\<close>. The relation is appended before the capacity is looked up.
\<close>

fun getPodVolumesLoop ::
  "('s, 'f::{zero,plus}) Env \<Rightarrow> K8sPod \<Rightarrow> Volume list \<Rightarrow> 'f PersistentVolumeClaim list \<Rightarrow> 'f
     \<Rightarrow> ('s, 'f) World \<Rightarrow> ('f PersistentVolumeClaim list \<times> 'f) \<times> ('s, 'f) World" where
  "getPodVolumesLoop env k8sPod [] podVolumes storage w = ((podVolumes, storage), w)"
| "getPodVolumesLoop env k8sPod (vol # vols) podVolumes storage w =
     (case ClaimName vol of
        None \<Rightarrow> getPodVolumesLoop env k8sPod vols podVolumes storage w
      | Some claimName \<Rightarrow>
          let pvcXID = k8sNamespace k8sPod @ '':'' @ claimName;
              (pvcUID, w1) = callCreateOrGet env KPersistentVolumeClaim pvcXID w
          in if pvcUID \<noteq> '''' then
               let podVolumes1 = podVolumes @ [\<lparr>Xid = pvcXID, UID = pvcUID, StorageCapacity = 0\<rparr>];
                   (r, w2) = callGetPVCFromUID env pvcUID w1
               in (case r of
                     Inr pvc \<Rightarrow>
                       getPodVolumesLoop env k8sPod vols podVolumes1
                         (storage + StorageCapacity pvc) w2
                   | Inl err \<Rightarrow> getPodVolumesLoop env k8sPod vols podVolumes1 storage w2)
             else getPodVolumesLoop env k8sPod vols podVolumes storage w1)"

definition getPodVolumes ::
  "('s, 'f::{zero,plus}) Env \<Rightarrow> K8sPod \<Rightarrow> ('s, 'f) World
     \<Rightarrow> ('f PersistentVolumeClaim list \<times> 'f) \<times> ('s, 'f) World" where
  "getPodVolumes env k8sPod w = getPodVolumesLoop env k8sPod (k8sVolumes k8sPod) [] 0 w"

subsection \<open>\<^verbatim>\<open>populatePodLabels\<close>\<close>

fun populatePodLabelsLoop ::
  "('s, 'f) Env \<Rightarrow> (string \<times> string) list \<Rightarrow> Label list \<Rightarrow> ('s, 'f) World
     \<Rightarrow> Label list \<times> ('s, 'f) World" where
  "populatePodLabelsLoop env [] labels w = (labels, w)"
| "populatePodLabelsLoop env ((key, val) # podLabels) labels w =
     (let (l, w1) = callGetLabel env key val w
      in populatePodLabelsLoop env podLabels (labels @ [l]) w1)"

definition populatePodLabels ::
  "('s, 'f) Env \<Rightarrow> 'f Pod \<Rightarrow> (string \<times> string) list \<Rightarrow> ('s, 'f) World
     \<Rightarrow> 'f Pod \<times> ('s, 'f) World" where
  "populatePodLabels env pod podLabels w =
     (let (labels, w1) = populatePodLabelsLoop env podLabels [] w
      in (pod\<lparr>Labels := labels\<rparr>, w1))"

subsection \<open>\<^verbatim>\<open>newPod\<close>\<close>

text \<open>
  Lines 75 to 91 of \<^verbatim>\<open>newPod\<close>: the entity under construction, up to the
  \<^verbatim>\<open>return\<close>. An unresolved relation leaves its field at the zero value.
\<close>

definition newPodEntity ::
  "('s, 'f::{zero,plus}) Env \<Rightarrow> K8sPod \<Rightarrow> ('s, 'f) World \<Rightarrow> 'f Pod \<times> ('s, 'f) World" where
  "newPodEntity env k8sPod w =
     (let pod = Pod0\<lparr>Name := ''pod-'' @ k8sName k8sPod, IsPod := True, Type := ''pod'',
                  Xid := k8sNamespace k8sPod @ '':'' @ k8sName k8sPod,
                  StartTime := FormatRFC3339 env (k8sCreationTimestamp k8sPod)\<rparr>;
          (r, w1) = callCreateOrGetNode env (k8sNodeName k8sPod) w;
          pod1 = (case r of
                    Inr nodeUID \<Rightarrow> pod\<lparr>Node := Some \<lparr>Xid = k8sNodeName k8sPod, UID = nodeUID\<rparr>\<rparr>
                  | Inl err \<Rightarrow> pod);
          (namespaceUID, w2) = callCreateOrGet env KNamespace (k8sNamespace k8sPod) w1;
          pod2 = (if namespaceUID \<noteq> ''''
                  then pod1\<lparr>Namespace := Some \<lparr>Xid = k8sNamespace k8sPod, UID = namespaceUID\<rparr>\<rparr>
                  else pod1);
          ((pvcs, storage), w3) = getPodVolumes env k8sPod w2;
          pod3 = pod2\<lparr>Pvcs := pvcs, StorageRequest := storage\<rparr>
      in setPodOwners env pod3 k8sPod w3)"

definition newPod ::
  "('s, 'f::{zero,plus}) Env \<Rightarrow> K8sPod \<Rightarrow> ('s, 'f) World
     \<Rightarrow> (error + Assigned) \<times> ('s, 'f) World" where
  "newPod env k8sPod w =
     (let (pod, w1) = newPodEntity env k8sPod w
      in callMutateNode env pod CREATE w1)"

subsection \<open>\<^verbatim>\<open>StorePod\<close>\<close>

text \<open>Lines 113 to 117: the branch taken when the deletion timestamp is not zero.\<close>

definition terminatePhase ::
  "('s, 'f::{zero,plus}) Env \<Rightarrow> string \<Rightarrow> string \<Rightarrow> Time \<Rightarrow> ('s, 'f) World
     \<Rightarrow> 'f Pod \<times> ('s, 'f) World" where
  "terminatePhase env xid uid deleted w =
     (let pod = Pod0\<lparr>Xid := xid, UID := uid, EndTime := FormatRFC3339 env deleted\<rparr>
      in (pod, callDeleteContainers env (Containers pod) deleted w))"

text \<open>Lines 119 to 129: the branch taken otherwise.\<close>

definition updatePhase ::
  "('s, 'f::{zero,plus}) Env \<Rightarrow> K8sPod \<Rightarrow> string \<Rightarrow> string \<Rightarrow> ('s, 'f) World
     \<Rightarrow> 'f Pod \<times> ('s, 'f) World" where
  "updatePhase env k8sPod xid uid w =
     (let (namespaceUID, w1) = callCreateOrGet env KNamespace (k8sNamespace k8sPod) w;
          ((containers, metrics), w2) = callStoreContainers env k8sPod uid namespaceUID w1;
          pod = Pod0\<lparr>Xid := xid, UID := uid, Containers := containers,
                  CPURequest := mCPURequest metrics, CPULimit := mCPULimit metrics,
                  MemoryRequest := mMemoryRequest metrics,
                  MemoryLimit := mMemoryLimit metrics\<rparr>
      in populatePodLabels env pod (k8sLabels k8sPod) w2)"

text \<open>
  Lines 98 to 109: the identity lookup and, when it finds nothing, the create.
  \<open>Inl\<close> is the early \<^verbatim>\<open>return err\<close>; \<open>Inr\<close> carries the \<^verbatim>\<open>uid\<close> the rest of the call
  uses.
\<close>

definition resolveOrCreate ::
  "('s, 'f::{zero,plus}) Env \<Rightarrow> K8sPod \<Rightarrow> string \<Rightarrow> ('s, 'f) World
     \<Rightarrow> (error + string) \<times> ('s, 'f) World" where
  "resolveOrCreate env k8sPod xid w =
     (let uid = GetUID env xid IsPodConst (store w)
      in if uid = '''' then
           (case newPod env k8sPod w of
              (Inl err, w1) \<Rightarrow> (Inl err, w1)
            | (Inr assigned, w1) \<Rightarrow> (Inr (uidsAt assigned ''blank-0''), w1))
         else (Inr uid, w))"

definition StorePod ::
  "('s, 'f::{zero,plus}) Env \<Rightarrow> K8sPod \<Rightarrow> ('s, 'f) World \<Rightarrow> error option \<times> ('s, 'f) World" where
  "StorePod env k8sPod w =
     (let xid = k8sNamespace k8sPod @ '':'' @ k8sName k8sPod
      in case resolveOrCreate env k8sPod xid w of
           (Inl err, w1) \<Rightarrow> (Some err, w1)
         | (Inr uid, w1) \<Rightarrow>
             let podDeletedTimestamp = k8sDeletionTimestamp k8sPod;
                 (pod, w2) =
                   (case podDeletedTimestamp of
                      Some deleted \<Rightarrow>
                        if \<not> IsZero podDeletedTimestamp
                        then terminatePhase env xid uid deleted w1
                        else updatePhase env k8sPod xid uid w1
                    | None \<Rightarrow> updatePhase env k8sPod xid uid w1);
                 (r, w3) = callMutateNode env pod UPDATE w2
             in (errOf r, w3))"

subsection \<open>\<^verbatim>\<open>StorePodsInteraction\<close>\<close>

text \<open>
  \<^verbatim>\<open>for index, podXID := range podsXIDs\<close>, with the index counted beside the list.
  \<^verbatim>\<open>counts[index]\<close> is evaluated for a resolved destination only; out of range it
  panics.
\<close>

fun retrieveLoop ::
  "('s, 'f::zero) Env \<Rightarrow> string list \<Rightarrow> 'f list \<Rightarrow> nat \<Rightarrow> 'f PodLeaf list \<Rightarrow> 's
     \<Rightarrow> 'f PodLeaf list outcome" where
  "retrieveLoop env [] counts index pods s = Returned pods"
| "retrieveLoop env (podXID # podsXIDs) counts index pods s =
     (let podUID = GetUID env podXID IsPodConst s
      in if podUID = '''' then retrieveLoop env podsXIDs counts (Suc index) pods s
         else if index < length counts then
           retrieveLoop env podsXIDs counts (Suc index)
             (pods @ [Pod0\<lparr>Xid := podXID, UID := podUID, Count := counts ! index\<rparr>]) s
         else Panicked)"

definition retrievePodsWithCountAsEdgeWeightFromPodsXIDs ::
  "('s, 'f::zero) Env \<Rightarrow> string list \<Rightarrow> 'f list \<Rightarrow> 's \<Rightarrow> 'f PodLeaf list outcome" where
  "retrievePodsWithCountAsEdgeWeightFromPodsXIDs env podsXIDs counts s =
     retrieveLoop env podsXIDs counts 0 [] s"

definition StorePodsInteraction ::
  "('s, 'f::zero) Env \<Rightarrow> string \<Rightarrow> string list \<Rightarrow> 'f list \<Rightarrow> ('s, 'f) World
     \<Rightarrow> error option outcome \<times> ('s, 'f) World" where
  "StorePodsInteraction env sourcePodXID destinationPodsXIDs counts w =
     (let uid = GetUID env sourcePodXID IsPodConst (store w)
      in if uid = '''' then
           (Returned (Some (Error (''source pod: '' @ sourcePodXID @ '' is not persisted yet''))), w)
         else
           (case retrievePodsWithCountAsEdgeWeightFromPodsXIDs env destinationPodsXIDs counts
                   (store w) of
              Panicked \<Rightarrow> (Panicked, w)
            | Returned pods \<Rightarrow>
                let source = Pod0\<lparr>UID := uid, Xid := sourcePodXID, Pods := pods\<rparr>;
                    (r, w1) = callMutateNode env source UPDATE w
                in (Returned (errOf r), w1)))"

section \<open>Reading the trace\<close>

text \<open>The calls made between two worlds of one run, oldest first.\<close>

definition since :: "('s, 'f) World \<Rightarrow> ('s, 'f) World \<Rightarrow> 'f Event list" where
  "since w w' = drop (length (trace w)) (trace w')"

text \<open>The mutations of a trace: entity, mode and the store's answer.\<close>

fun mutationsOf :: "'f Event list \<Rightarrow> ('f Pod \<times> mode \<times> (error + Assigned)) list" where
  "mutationsOf [] = []"
| "mutationsOf (EvMutateNode pod m r # evs) = (pod, m, r) # mutationsOf evs"
| "mutationsOf (_ # evs) = mutationsOf evs"

text \<open>The create-or-get calls of a trace: kind, external id asked for, id answered.\<close>

fun createOrGetsOf :: "'f Event list \<Rightarrow> (Kind \<times> string \<times> string) list" where
  "createOrGetsOf [] = []"
| "createOrGetsOf (EvCreateOrGet kind xid uid # evs) = (kind, xid, uid) # createOrGetsOf evs"
| "createOrGetsOf (_ # evs) = createOrGetsOf evs"

text \<open>The capacity lookups of a trace: id asked for and the answer.\<close>

fun pvcLookupsOf :: "'f Event list \<Rightarrow> (string \<times> (error + 'f PersistentVolumeClaim)) list" where
  "pvcLookupsOf [] = []"
| "pvcLookupsOf (EvGetPVC uid r # evs) = (uid, r) # pvcLookupsOf evs"
| "pvcLookupsOf (_ # evs) = pvcLookupsOf evs"

text \<open>The container lists handed to \<^verbatim>\<open>deleteContainersInTerminatedPod\<close>.\<close>

fun cascadesOf :: "'f Event list \<Rightarrow> (Container list \<times> Time) list" where
  "cascadesOf [] = []"
| "cascadesOf (EvDeleteContainers containers t # evs) = (containers, t) # cascadesOf evs"
| "cascadesOf (_ # evs) = cascadesOf evs"

section \<open>Vocabulary for the claims\<close>

text \<open>
  The five owner kinds of \<^verbatim>\<open>setPodOwners\<close>: the \<^verbatim>\<open>Kind\<close> string of a reference, the
  collaborator it selects and the field of the pod it fills.
\<close>

definition ownerKindOf :: "string \<Rightarrow> Kind option" where
  "ownerKindOf kind =
     (if kind = ''Deployment'' then Some KDeployment
      else if kind = ''ReplicaSet'' then Some KReplicaset
      else if kind = ''StatefulSet'' then Some KStatefulset
      else if kind = ''Job'' then Some KJob
      else if kind = ''DaemonSet'' then Some KDaemonset
      else None)"

fun ownerField :: "Kind \<Rightarrow> ('f, 'p) PodOf \<Rightarrow> ID option" where
  "ownerField KDeployment pod = Deployment pod"
| "ownerField KReplicaset pod = Replicaset pod"
| "ownerField KStatefulset pod = Statefulset pod"
| "ownerField KJob pod = Job pod"
| "ownerField KDaemonset pod = Daemonset pod"
| "ownerField KNamespace pod = None"
| "ownerField KPersistentVolumeClaim pod = None"

definition ownerKinds :: "Kind set" where
  "ownerKinds = {KDeployment, KReplicaset, KStatefulset, KJob, KDaemonset}"

text \<open>
  The create-or-get calls an owner list asks for: one per reference of a recognised
  kind, in order, for the external id \<^verbatim>\<open>namespace:ownerName\<close>.
\<close>

definition ownerCalls :: "K8sPod \<Rightarrow> OwnerReference list \<Rightarrow> (Kind \<times> string) list" where
  "ownerCalls k8sPod owners =
     List.map_filter
       (\<lambda>owner. map_option (\<lambda>kind. (kind, k8sNamespace k8sPod @ '':'' @ OwnerName owner))
                  (ownerKindOf (OwnerKind owner)))
       owners"

text \<open>
  Among answered create-or-get calls, the relation of the last call of a kind that
  was answered with an id.
\<close>

definition relationOf :: "Kind \<times> string \<times> string \<Rightarrow> ID" where
  "relationOf call = \<lparr>Xid = fst (snd call), UID = snd (snd call)\<rparr>"

definition lastResolved :: "Kind \<Rightarrow> (Kind \<times> string \<times> string) list \<Rightarrow> ID option" where
  "lastResolved kind calls =
     (let answered = filter (\<lambda>(kind', xid, uid). kind' = kind \<and> uid \<noteq> []) calls
      in if answered = [] then None else Some (relationOf (last answered)))"

text \<open>
  The create-or-get calls a volume list asks for: one per volume that names a claim,
  in order, for the external id \<^verbatim>\<open>namespace:claimName\<close>.
\<close>

definition claimCalls :: "K8sPod \<Rightarrow> Volume list \<Rightarrow> (Kind \<times> string) list" where
  "claimCalls k8sPod vols =
     List.map_filter
       (\<lambda>vol. map_option
                 (\<lambda>claimName. (KPersistentVolumeClaim, k8sNamespace k8sPod @ '':'' @ claimName))
                 (ClaimName vol))
       vols"

text \<open>The relations of the claim calls that were answered with an id.\<close>

definition attachedClaims ::
  "(Kind \<times> string \<times> string) list \<Rightarrow> ('f::zero) PersistentVolumeClaim list" where
  "attachedClaims calls =
     map (\<lambda>(kind, xid, uid). \<lparr>Xid = xid, UID = uid, StorageCapacity = 0\<rparr>)
       (filter (\<lambda>(kind, xid, uid). kind = KPersistentVolumeClaim \<and> uid \<noteq> []) calls)"

text \<open>The capacities of the capacity lookups that succeeded.\<close>

definition capacitiesOf :: "(string \<times> (error + 'f PersistentVolumeClaim)) list \<Rightarrow> 'f list" where
  "capacitiesOf lookups =
     List.map_filter
       (\<lambda>(uid, r). case r of Inl err \<Rightarrow> None | Inr pvc \<Rightarrow> Some (StorageCapacity pvc))
       lookups"

section \<open>The store's contract\<close>

text \<open>
  Modelled from the spec: what sections 3, 4.1 and 6 promise of the graph store and
  of the collaborators of the update phase, whose code is not among the sources. A
  successful \<^verbatim>\<open>CREATE\<close> of a pod entity assigns a non-empty internal id under the key
  \<^verbatim>\<open>blank-0\<close>, and the identity lookup for the entity's external id then finds that
  id ("assigned by the graph store on first persistence"). An \<^verbatim>\<open>UPDATE\<close>, the
  namespace helper, the container synchronisation and the label helper never change
  what the lookup finds for a pod that it finds ("at most one internal id per
  external id and kind, for the lifetime of the system"; "no entity is ever
  physically removed").
\<close>

definition keepsPodIndex :: "('s, 'f) Env \<Rightarrow> ('s \<Rightarrow> 's) \<Rightarrow> bool" where
  "keepsPodIndex env f \<longleftrightarrow>
     (\<forall>xid s. GetUID env xid IsPodConst s \<noteq> []
        \<longrightarrow> GetUID env xid IsPodConst (f s) = GetUID env xid IsPodConst s)"

definition storeContract :: "('s, 'f) Env \<Rightarrow> bool" where
  "storeContract env \<longleftrightarrow>
     (\<forall>pod s assigned s'.
        IsPod pod \<and> MutateNode env pod CREATE s = (Inr assigned, s')
        \<longrightarrow> uidsAt assigned ''blank-0'' \<noteq> []
            \<and> GetUID env (Xid pod) IsPodConst s' = uidsAt assigned ''blank-0'')
   \<and> (\<forall>pod. keepsPodIndex env (\<lambda>s. snd (MutateNode env pod UPDATE s)))
   \<and> (\<forall>xid. keepsPodIndex env (\<lambda>s. snd (CreateOrGetNamespaceByID env xid s)))
   \<and> (\<forall>k8sPod uid namespaceUID.
         keepsPodIndex env
           (\<lambda>s. snd (StoreAndRetrieveContainersAndMetrics env k8sPod uid namespaceUID s)))
   \<and> (\<forall>key val. keepsPodIndex env (\<lambda>s. snd (GetLabel env key val s)))"

section \<open>What a mutation carries\<close>

text \<open>
  \<^verbatim>\<open>MutateNode\<close> sends the entity as JSON, and every field of \<^verbatim>\<open>Pod\<close> is tagged
  \<^verbatim>\<open>omitempty\<close> (lines 40 to 62): a field is in the mutation only when it is not the
  zero value (\<^verbatim>\<open>false\<close>, \<^verbatim>\<open>0\<close>, \<^verbatim>\<open>nil\<close>, the empty string or slice). These are the keys
  an entity is sent with, in the order of the struct. The tags of the embedded
  \<^verbatim>\<open>dgraph.ID\<close> are not among the sources; its two ids are taken to be tagged alike.
\<close>

definition podJSONKeys :: "('f::zero) Pod \<Rightarrow> string list" where
  "podJSONKeys pod =
     (if Xid pod = [] then [] else [''xid''])
   @ (if UID pod = [] then [] else [''uid''])
   @ (if IsPod pod then [''isPod''] else [])
   @ (if Name pod = [] then [] else [''name''])
   @ (if StartTime pod = [] then [] else [''startTime''])
   @ (if EndTime pod = [] then [] else [''endTime''])
   @ (if Containers pod = [] then [] else [''containers''])
   @ (if Pods pod = [] then [] else [''pod''])
   @ (if Count pod = 0 then [] else [''pod|count''])
   @ (if Node pod = None then [] else [''node''])
   @ (if Namespace pod = None then [] else [''namespace''])
   @ (if Deployment pod = None then [] else [''deployment''])
   @ (if Replicaset pod = None then [] else [''replicaset''])
   @ (if Statefulset pod = None then [] else [''statefulset''])
   @ (if Daemonset pod = None then [] else [''daemonset''])
   @ (if Job pod = None then [] else [''job''])
   @ (if Pvcs pod = [] then [] else [''pvc''])
   @ (if CPURequest pod = 0 then [] else [''cpuRequest''])
   @ (if CPULimit pod = 0 then [] else [''cpuLimit''])
   @ (if MemoryRequest pod = 0 then [] else [''memoryRequest''])
   @ (if MemoryLimit pod = 0 then [] else [''memoryLimit''])
   @ (if StorageRequest pod = 0 then [] else [''storageRequest''])
   @ (if Type pod = [] then [] else [''type''])
   @ (if Cid pod = [] then [] else [''cid''])
   @ (if Labels pod = [] then [] else [''label''])"

section \<open>A store to run the handler on\<close>

text \<open>
  Modelled from the spec: a small graph store with the interface of section 6, to
  evaluate the handler on concrete inputs. \<open>podUIDs\<close> is the identity index of the
  pods (external id to internal id); \<open>relatedUIDs\<close> lists the entities of the other
  kinds that their create-or-get helpers resolve, and a helper answers the empty id
  for any other external id; \<open>capacities\<close> lists the volume claims whose capacity
  lookup succeeds. A create mutation assigns a new internal id under the key
  \<^verbatim>\<open>blank-0\<close> and enters the entity into the index; an update leaves the index as it
  is. This store never rejects a mutation.
\<close>

record DemoStore =
  podUIDs :: "(string \<times> string) list"
  relatedUIDs :: "(string \<times> string) list"
  capacities :: "(string \<times> real) list"

definition lookupUID :: "(string \<times> string) list \<Rightarrow> string \<Rightarrow> string" where
  "lookupUID table xid = (case map_of table xid of None \<Rightarrow> '''' | Some u \<Rightarrow> u)"

definition freshUID :: "DemoStore \<Rightarrow> string" where
  "freshUID s = ''0x'' @ replicate (Suc (length (podUIDs s))) (CHR ''1'')"

definition demoMutateNode ::
  "real Pod \<Rightarrow> mode \<Rightarrow> DemoStore \<Rightarrow> (error + Assigned) \<times> DemoStore" where
  "demoMutateNode pod m s =
     (case m of
        CREATE \<Rightarrow>
          (Inr \<lparr>Uids = [''blank-0'' \<mapsto> freshUID s]\<rparr>,
           s\<lparr>podUIDs := (Xid pod, freshUID s) # podUIDs s\<rparr>)
      | UPDATE \<Rightarrow> (Inr \<lparr>Uids = Map.empty\<rparr>, s))"

definition demoCreateOrGet :: "string \<Rightarrow> DemoStore \<Rightarrow> string \<times> DemoStore" where
  "demoCreateOrGet xid s = (lookupUID (relatedUIDs s) xid, s)"

definition demoEnv :: "(DemoStore, real) Env" where
  "demoEnv =
     \<lparr>GetUID = (\<lambda>xid pred s. if pred = ''isPod'' then lookupUID (podUIDs s) xid else ''''),
      MutateNode = demoMutateNode,
      createOrGetNodeByID =
        (\<lambda>xid s. (if lookupUID (relatedUIDs s) xid = '''' then Inl (Error ''node not found'')
                   else Inr (lookupUID (relatedUIDs s) xid), s)),
      CreateOrGetNamespaceByID = demoCreateOrGet,
      CreateOrGetDeploymentByID = demoCreateOrGet,
      CreateOrGetReplicasetByID = demoCreateOrGet,
      CreateOrGetStatefulsetByID = demoCreateOrGet,
      CreateOrGetJobByID = demoCreateOrGet,
      CreateOrGetDaemonsetByID = demoCreateOrGet,
      CreateOrGetPersistentVolumeClaimByID = demoCreateOrGet,
      getPVCFromUID =
        (\<lambda>uid s. (case map_of (capacities s) uid of
                     None \<Rightarrow> Inl (Error ''pvc not found'')
                   | Some c \<Rightarrow> Inr \<lparr>Xid = '''', UID = uid, StorageCapacity = c\<rparr>, s)),
      StoreAndRetrieveContainersAndMetrics =
        (\<lambda>k8sPod uid namespaceUID s.
           (([], \<lparr>mCPURequest = 0, mCPULimit = 0, mMemoryRequest = 0, mMemoryLimit = 0\<rparr>), s)),
      deleteContainersInTerminatedPod = (\<lambda>containers t s. s),
      GetLabel = (\<lambda>key val s. (\<lparr>Xid = key @ '':'' @ val, UID = ''0xa''\<rparr>, s)),
      FormatRFC3339 = (\<lambda>t. ''T'' @ replicate (nat t) (CHR ''s''))\<rparr>"

text \<open>
  A cluster with the namespace \<^verbatim>\<open>ns\<close>, the pods \<^verbatim>\<open>ns:p1\<close> and \<^verbatim>\<open>ns:p2\<close> persisted, a
  replica set and a deployment, and three volume claims: \<^verbatim>\<open>ns:c1\<close> of capacity 10,
  \<^verbatim>\<open>ns:c2\<close> that resolves but whose capacity lookup fails, and \<^verbatim>\<open>ns:c3\<close> that does
  not resolve.
\<close>

definition demoStore :: DemoStore where
  "demoStore =
     \<lparr>podUIDs = [(''ns:p1'', ''0x1''), (''ns:p2'', ''0x11'')],
      relatedUIDs = [(''ns'', ''0xb''), (''ns:rs1'', ''0xc''), (''ns:d1'', ''0xd''),
                     (''ns:d2'', ''0xe''), (''ns:c1'', ''0xf''), (''ns:c2'', ''0xf2'')],
      capacities = [(''0xf'', 10)]\<rparr>"

definition demoWorld :: "(DemoStore, real) World" where
  "demoWorld = \<lparr>store = demoStore, trace = []\<rparr>"

definition demoPod :: K8sPod where
  "demoPod =
     \<lparr>k8sName = ''p3'', k8sNamespace = ''ns'', k8sCreationTimestamp = 3,
      k8sDeletionTimestamp = None, k8sNodeName = ''n1'',
      k8sVolumes = [\<lparr>VolumeName = ''v1'', ClaimName = Some ''c1''\<rparr>,
                    \<lparr>VolumeName = ''v2'', ClaimName = Some ''c2''\<rparr>,
                    \<lparr>VolumeName = ''v3'', ClaimName = Some ''c3''\<rparr>,
                    \<lparr>VolumeName = ''v4'', ClaimName = None\<rparr>],
      k8sOwnerReferences = [\<lparr>OwnerKind = ''ReplicaSet'', OwnerName = ''rs1''\<rparr>,
                            \<lparr>OwnerKind = ''Widget'', OwnerName = ''x''\<rparr>],
      k8sLabels = [(''app'', ''web'')]\<rparr>"

text \<open>The entity \<^verbatim>\<open>newPod\<close> builds for \<open>demoPod\<close> on \<open>demoStore\<close>, and the trace of the call.\<close>

definition demoCreated :: "real Pod" where
  "demoCreated =
     Pod0\<lparr>Name := ''pod-p3'', IsPod := True, Type := ''pod'', Xid := ''ns:p3'',
          StartTime := ''Tsss'',
          Namespace := Some \<lparr>Xid = ''ns'', UID = ''0xb''\<rparr>,
          Pvcs := [\<lparr>Xid = ''ns:c1'', UID = ''0xf'', StorageCapacity = 0\<rparr>,
                   \<lparr>Xid = ''ns:c2'', UID = ''0xf2'', StorageCapacity = 0\<rparr>],
          StorageRequest := 10,
          Replicaset := Some \<lparr>Xid = ''ns:rs1'', UID = ''0xc''\<rparr>\<rparr>"

definition demoVolumeTrace :: "real Event list" where
  "demoVolumeTrace =
     [EvCreateOrGet KPersistentVolumeClaim ''ns:c1'' ''0xf'',
      EvGetPVC ''0xf'' (Inr \<lparr>Xid = [], UID = ''0xf'', StorageCapacity = 10\<rparr>),
      EvCreateOrGet KPersistentVolumeClaim ''ns:c2'' ''0xf2'',
      EvGetPVC ''0xf2'' (Inl (Error ''pvc not found'')),
      EvCreateOrGet KPersistentVolumeClaim ''ns:c3'' []]"

definition demoCreateTrace :: "real Event list" where
  "demoCreateTrace =
     [EvCreateOrGetNode ''n1'' (Inl (Error ''node not found'')),
      EvCreateOrGet KNamespace ''ns'' ''0xb'']
     @ demoVolumeTrace
     @ [EvCreateOrGet KReplicaset ''ns:rs1'' ''0xc'',
        EvMutateNode demoCreated CREATE (Inr \<lparr>Uids = [''blank-0'' \<mapsto> ''0x111'']\<rparr>)]"

definition demoStoreCreated :: DemoStore where
  "demoStoreCreated = demoStore\<lparr>podUIDs := (''ns:p3'', ''0x111'') # podUIDs demoStore\<rparr>"

text \<open>The demonstration pod \<^verbatim>\<open>ns:p1\<close>, observed with a deletion timestamp.\<close>

definition demoDeleted :: K8sPod where
  "demoDeleted = demoPod\<lparr>k8sName := ''p1'', k8sDeletionTimestamp := Some 2\<rparr>"

definition demoTerminated :: "real Pod" where
  "demoTerminated = Pod0\<lparr>Xid := ''ns:p1'', UID := ''0x1'', EndTime := ''Tss''\<rparr>"

text \<open>What the update phase adds to the trace for \<open>demoPod\<close>, once it is persisted.\<close>

definition demoUpdated :: "real Pod" where
  "demoUpdated =
     Pod0\<lparr>Xid := ''ns:p3'', UID := ''0x111'', Labels := [\<lparr>Xid = ''app:web'', UID = ''0xa''\<rparr>]\<rparr>"

definition demoUpdateTrace :: "real Event list" where
  "demoUpdateTrace =
     [EvCreateOrGet KNamespace ''ns'' ''0xb'',
      EvStoreContainers demoPod ''0x111'' ''0xb'' []
        \<lparr>mCPURequest = 0, mCPULimit = 0, mMemoryRequest = 0, mMemoryLimit = 0\<rparr>,
      EvGetLabel ''app'' ''web'' \<lparr>Xid = ''app:web'', UID = ''0xa''\<rparr>,
      EvMutateNode demoUpdated UPDATE (Inr \<lparr>Uids = Map.empty\<rparr>)]"

section \<open>Properties\<close>

subsection \<open>The interaction recorder\<close>

text \<open>
  The index-driven loop against a description by \<open>zip\<close>: the loop panics exactly
  when a destination that resolves stands at an index the counts do not reach, and
  otherwise returns the resolved destinations, each with the count beside it.
\<close>

lemma retrieveLoop_spec:
  "retrieveLoop env xs counts i pods s =
     (if \<exists>j < length xs. GetUID env (xs ! j) IsPodConst s \<noteq> [] \<and> length counts \<le> i + j
      then Panicked
      else Returned
             (pods @ map (\<lambda>(x, c). Pod0\<lparr>Xid := x, UID := GetUID env x IsPodConst s, Count := c\<rparr>)
                       (filter (\<lambda>(x, c). GetUID env x IsPodConst s \<noteq> [])
                          (zip xs (drop i counts)))))"
proof (induction xs arbitrary: i pods)
  case Nil
  then show ?case by simp
next
  case (Cons x xs)
  have ex: "(\<exists>j < length (x # xs).
               GetUID env ((x # xs) ! j) IsPodConst s \<noteq> [] \<and> length counts \<le> i + j)
        \<longleftrightarrow> (GetUID env x IsPodConst s \<noteq> [] \<and> length counts \<le> i)
          \<or> (\<exists>j < length xs. GetUID env (xs ! j) IsPodConst s \<noteq> [] \<and> length counts \<le> Suc i + j)"
    by (auto simp: less_Suc_eq_0_disj)
  show ?case
  proof (cases "i < length counts")
    case True
    then have d: "drop i counts = counts ! i # drop (Suc i) counts"
      by (simp add: Cons_nth_drop_Suc)
    show ?thesis
      unfolding ex using True by (auto simp add: Cons.IH d Let_def)
  next
    case False
    then have d: "drop i counts = []" by simp
    show ?thesis
      unfolding ex using False by (auto simp add: Cons.IH d Let_def)
  qed
qed

lemma retrieve_no_panic:
  assumes "\<not> (\<exists>j < length xs. length counts \<le> j \<and> GetUID env (xs ! j) IsPodConst s \<noteq> [])"
  shows "retrievePodsWithCountAsEdgeWeightFromPodsXIDs env xs counts s =
     Returned (map (\<lambda>(x, c). Pod0\<lparr>Xid := x, UID := GetUID env x IsPodConst s, Count := c\<rparr>)
                  (filter (\<lambda>(x, c). GetUID env x IsPodConst s \<noteq> []) (zip xs counts)))"
  using assms
  by (auto simp add: retrievePodsWithCountAsEdgeWeightFromPodsXIDs_def retrieveLoop_spec)

lemma retrieve_panic:
  assumes "\<exists>j < length xs. length counts \<le> j \<and> GetUID env (xs ! j) IsPodConst s \<noteq> []"
  shows "retrievePodsWithCountAsEdgeWeightFromPodsXIDs env xs counts s = Panicked"
  using assms
  by (auto simp add: retrievePodsWithCountAsEdgeWeightFromPodsXIDs_def retrieveLoop_spec)

lemma demo_GetUID:
  "GetUID demoEnv xid IsPodConst s = lookupUID (podUIDs s) xid"
  by (simp add: demoEnv_def IsPodConst_def)

text \<open>
  Claim C3. When the source's external id does not resolve (the lookup answers the
  empty id), \<^verbatim>\<open>StorePodsInteraction\<close> returns the error "source pod: ... is not
  persisted yet" at once: the world it returns is the world it was given, store and
  trace, so it called no collaborator that can change the store: no mutation was
  issued and nothing was created, the source least of all.
\<close>

theorem StorePodsInteraction_source_not_persisted:
  assumes "GetUID env sourcePodXID IsPodConst (store w) = []"
  shows "StorePodsInteraction env sourcePodXID destinationPodsXIDs counts w =
           (Returned (Some (Error (''source pod: '' @ sourcePodXID @ '' is not persisted yet''))), w)"
  using assms by (simp add: StorePodsInteraction_def)

theorem StorePodsInteraction_source_not_persisted_witness:
  "GetUID demoEnv ''ns:p9'' IsPodConst (store demoWorld) = []
   \<and> StorePodsInteraction demoEnv ''ns:p9'' [''ns:p2''] [5] demoWorld =
       (Returned (Some (Error ''source pod: ns:p9 is not persisted yet'')), demoWorld)"
proof -
  have h: "GetUID demoEnv ''ns:p9'' IsPodConst (store demoWorld) = []"
    by (simp add: demo_GetUID demoWorld_def demoStore_def lookupUID_def)
  show ?thesis
    using h StorePodsInteraction_source_not_persisted [OF h, of "[''ns:p2'']" "[5]"] by simp
qed

text \<open>
  Claim C4. With a source that resolves and as many counts as destinations, the
  call does not panic and issues one update of the source whose \<^verbatim>\<open>Pods\<close> are
  exactly the destinations that resolve, in order, each with the count at its own
  index; a destination that does not resolve is left out. The error returned is
  the store's answer to that one update and nothing else.
\<close>

theorem StorePodsInteraction_edges:
  assumes "GetUID env sourcePodXID IsPodConst (store w) = uid" and "uid \<noteq> []"
    and "length destinationPodsXIDs = length counts"
  shows "StorePodsInteraction env sourcePodXID destinationPodsXIDs counts w =
     (let pods = map (\<lambda>(x, c). Pod0\<lparr>Xid := x, UID := GetUID env x IsPodConst (store w), Count := c\<rparr>)
                  (filter (\<lambda>(x, c). GetUID env x IsPodConst (store w) \<noteq> [])
                     (zip destinationPodsXIDs counts));
          source = Pod0\<lparr>UID := uid, Xid := sourcePodXID, Pods := pods\<rparr>;
          (r, s) = MutateNode env source UPDATE (store w)
      in (Returned (errOf r),
          \<lparr>store = s, trace = trace w @ [EvMutateNode source UPDATE r]\<rparr>))"
proof -
  have "\<not> (\<exists>j < length destinationPodsXIDs. length counts \<le> j
            \<and> GetUID env (destinationPodsXIDs ! j) IsPodConst (store w) \<noteq> [])"
    using assms(3) by simp
  then show ?thesis
    using assms(1,2)
    by (simp add: StorePodsInteraction_def retrieve_no_panic callMutateNode_def Let_def
          split: prod.splits)
qed

theorem StorePodsInteraction_edges_witness:
  "GetUID demoEnv ''ns:p1'' IsPodConst (store demoWorld) = ''0x1''
   \<and> length [''ns:p2'', ''ns:p3''] = length [5, 10 :: real]
   \<and> StorePodsInteraction demoEnv ''ns:p1'' [''ns:p2'', ''ns:p3''] [5, 10] demoWorld =
       (Returned None,
        \<lparr>store = demoStore,
         trace = [EvMutateNode
                    (Pod0\<lparr>UID := ''0x1'', Xid := ''ns:p1'',
                          Pods := [Pod0\<lparr>Xid := ''ns:p2'', UID := ''0x11'', Count := 5\<rparr>]\<rparr>)
                    UPDATE (Inr \<lparr>Uids = Map.empty\<rparr>)]\<rparr>)"
proof -
  have h1: "GetUID demoEnv ''ns:p1'' IsPodConst (store demoWorld) = ''0x1''"
    by (simp add: demo_GetUID demoWorld_def demoStore_def lookupUID_def)
  have h2: "''0x1'' \<noteq> []" by simp
  have h3: "length [''ns:p2'', ''ns:p3''] = length [5, 10 :: real]" by simp
  have m: "MutateNode demoEnv = demoMutateNode" by (simp add: demoEnv_def)
  show ?thesis
    using h1 StorePodsInteraction_edges [OF h1 h2 h3]
    by (simp add: demo_GetUID demoWorld_def demoStore_def lookupUID_def m demoMutateNode_def)
qed

text \<open>
  Claim C2, as the code has it. \<^verbatim>\<open>StorePodsInteraction\<close> compares no lengths and has
  no validation error. When the source does not resolve, the call returns the "not
  persisted yet" error before it looks at either list, whatever their lengths. When
  the source resolves, counts beyond the last destination are never read, and
  destinations beyond the last count are looked up like the others: if one of them
  resolves, \<^verbatim>\<open>counts[index]\<close> is out of range and the call panics, before any
  mutation (the world is unchanged). If none of them resolves, the call is the call
  on both lists cut to the shorter length, with a source that resolves or not.
\<close>

theorem StorePodsInteraction_length_mismatch:
  fixes env :: "('s, 'f::zero) Env"
  shows
  "((\<exists>j < length destinationPodsXIDs. length counts \<le> j
        \<and> GetUID env (destinationPodsXIDs ! j) IsPodConst (store w) \<noteq> [])
      \<and> GetUID env sourcePodXID IsPodConst (store w) \<noteq> []
      \<longrightarrow> StorePodsInteraction env sourcePodXID destinationPodsXIDs counts w = (Panicked, w))
   \<and> (\<not> (\<exists>j < length destinationPodsXIDs. length counts \<le> j
        \<and> GetUID env (destinationPodsXIDs ! j) IsPodConst (store w) \<noteq> [])
      \<longrightarrow> StorePodsInteraction env sourcePodXID destinationPodsXIDs counts w
        = StorePodsInteraction env sourcePodXID
            (take (min (length destinationPodsXIDs) (length counts)) destinationPodsXIDs)
            (take (min (length destinationPodsXIDs) (length counts)) counts) w)
   \<and> (GetUID env sourcePodXID IsPodConst (store w) = []
      \<longrightarrow> StorePodsInteraction env sourcePodXID destinationPodsXIDs counts w
        = (Returned (Some (Error (''source pod: '' @ sourcePodXID @ '' is not persisted yet''))),
           w))"
proof -
  let ?late = "\<exists>j < length destinationPodsXIDs. length counts \<le> j
                  \<and> GetUID env (destinationPodsXIDs ! j) IsPodConst (store w) \<noteq> []"
  let ?n = "min (length destinationPodsXIDs) (length counts)"
  let ?edges = "\<lambda>xs cs. Returned
      (map (\<lambda>(x, c). Pod0\<lparr>Xid := x, UID := GetUID env x IsPodConst (store w), Count := c\<rparr>)
         (filter (\<lambda>(x, c). GetUID env x IsPodConst (store w) \<noteq> []) (zip xs cs)))"
  have a: "StorePodsInteraction env sourcePodXID destinationPodsXIDs counts w = (Panicked, w)"
    if "?late" "GetUID env sourcePodXID IsPodConst (store w) \<noteq> []"
    using that by (simp add: StorePodsInteraction_def retrieve_panic)
  have b: "StorePodsInteraction env sourcePodXID destinationPodsXIDs counts w
            = StorePodsInteraction env sourcePodXID (take ?n destinationPodsXIDs) (take ?n counts) w"
    if nl: "\<not> ?late"
  proof -
    have z: "zip destinationPodsXIDs counts = zip (take ?n destinationPodsXIDs) (take ?n counts)"
      by (metis length_zip take_zip take_all order_refl)
    have r1: "retrievePodsWithCountAsEdgeWeightFromPodsXIDs env destinationPodsXIDs counts (store w)
                = ?edges destinationPodsXIDs counts"
      using nl by (rule retrieve_no_panic)
    have "\<not> (\<exists>j < length (take ?n destinationPodsXIDs). length (take ?n counts) \<le> j
            \<and> GetUID env (take ?n destinationPodsXIDs ! j) IsPodConst (store w) \<noteq> [])"
      by (auto simp add: min_def split: if_splits)
    then have r2: "retrievePodsWithCountAsEdgeWeightFromPodsXIDs env
                     (take ?n destinationPodsXIDs) (take ?n counts) (store w)
                = ?edges (take ?n destinationPodsXIDs) (take ?n counts)"
      by (rule retrieve_no_panic)
    show ?thesis
      unfolding StorePodsInteraction_def r1 r2 z ..
  qed
  have c: "StorePodsInteraction env sourcePodXID destinationPodsXIDs counts w
        = (Returned (Some (Error (''source pod: '' @ sourcePodXID @ '' is not persisted yet''))),
           w)"
    if "GetUID env sourcePodXID IsPodConst (store w) = []"
    using that by (simp add: StorePodsInteraction_def)
  show ?thesis using a b c by blast
qed

theorem StorePodsInteraction_length_mismatch_witness:
  "StorePodsInteraction demoEnv ''ns:p1'' [''ns:p9'', ''ns:p2''] [5] demoWorld = (Panicked, demoWorld)
   \<and> StorePodsInteraction demoEnv ''ns:p1'' [''ns:p2''] [5, 10] demoWorld
     = StorePodsInteraction demoEnv ''ns:p1'' [''ns:p2''] [5] demoWorld
   \<and> StorePodsInteraction demoEnv ''ns:p9'' [''ns:p8'', ''ns:p2''] [5] demoWorld
     = (Returned (Some (Error ''source pod: ns:p9 is not persisted yet'')), demoWorld)"
proof -
  have nosrc: "GetUID demoEnv ''ns:p9'' IsPodConst (store demoWorld) = []"
    by (simp add: demo_GetUID demoWorld_def demoStore_def lookupUID_def)
  from StorePodsInteraction_length_mismatch
         [of "[''ns:p8'', ''ns:p2'']" "[5]" demoEnv demoWorld "''ns:p9''"] nosrc
  have 3: "StorePodsInteraction demoEnv ''ns:p9'' [''ns:p8'', ''ns:p2''] [5] demoWorld
     = (Returned (Some (Error ''source pod: ns:p9 is not persisted yet'')), demoWorld)"
    by simp
  have late: "\<exists>j < length [''ns:p9'', ''ns:p2'']. length [5 :: real] \<le> j
                \<and> GetUID demoEnv ([''ns:p9'', ''ns:p2''] ! j) IsPodConst (store demoWorld) \<noteq> []"
    by (rule exI [of _ 1])
      (simp add: demo_GetUID demoWorld_def demoStore_def lookupUID_def)
  have src: "GetUID demoEnv ''ns:p1'' IsPodConst (store demoWorld) \<noteq> []"
    by (simp add: demo_GetUID demoWorld_def demoStore_def lookupUID_def)
  have early: "\<not> (\<exists>j < length [''ns:p2'']. length [5, 10 :: real] \<le> j
                \<and> GetUID demoEnv ([''ns:p2''] ! j) IsPodConst (store demoWorld) \<noteq> [])"
    by simp
  from StorePodsInteraction_length_mismatch
         [of "[''ns:p9'', ''ns:p2'']" "[5]" demoEnv demoWorld "''ns:p1''"] late src
  have 1: "StorePodsInteraction demoEnv ''ns:p1'' [''ns:p9'', ''ns:p2''] [5] demoWorld
             = (Panicked, demoWorld)"
    by blast
  from StorePodsInteraction_length_mismatch
         [of "[''ns:p2'']" "[5, 10]" demoEnv demoWorld "''ns:p1''"] early
  have 2: "StorePodsInteraction demoEnv ''ns:p1'' [''ns:p2''] [5, 10] demoWorld
     = StorePodsInteraction demoEnv ''ns:p1'' [''ns:p2''] [5] demoWorld"
    by simp
  show ?thesis using 1 2 3 by simp
qed

text \<open>
  Claim C2 as stated fails: one destination and two counts, with a source that
  resolves, and the call returns with no error. The second count is dropped
  silently.
\<close>

theorem StorePodsInteraction_no_validation:
  "length [''ns:p2''] \<noteq> length [5, 10 :: real]
   \<and> fst (StorePodsInteraction demoEnv ''ns:p1'' [''ns:p2''] [5, 10] demoWorld) = Returned None"
  by (simp add: StorePodsInteraction_def retrievePodsWithCountAsEdgeWeightFromPodsXIDs_def
        demoWorld_def demoStore_def lookupUID_def callMutateNode_def Let_def
        demoEnv_def IsPodConst_def demoMutateNode_def)

subsection \<open>Owner resolution\<close>

lemma since_append: "trace w' = trace w @ evs \<Longrightarrow> since w w' = evs"
  by (simp add: since_def)

lemma createOrGetsOf_calls [simp]:
  "createOrGetsOf (map (\<lambda>(kind, xid, uid). EvCreateOrGet kind xid uid) calls) = calls"
  by (induction calls) auto

lemma mutationsOf_calls [simp]:
  "mutationsOf (map (\<lambda>(kind, xid, uid). EvCreateOrGet kind xid uid) calls) = []"
  by (induction calls) auto

lemma lastResolved_Nil [simp]: "lastResolved kind [] = None"
  by (simp add: lastResolved_def)

lemma lastResolved_append:
  "lastResolved kind (cs @ ds) =
     (case lastResolved kind ds of None \<Rightarrow> lastResolved kind cs | Some rel \<Rightarrow> Some rel)"
  by (simp add: lastResolved_def Let_def)

lemma lastResolved_single:
  "lastResolved kind [(kind', xid, uid)] =
     (if kind' = kind \<and> uid \<noteq> [] then Some \<lparr>Xid = xid, UID = uid\<rparr> else None)"
  by (simp add: lastResolved_def relationOf_def)

lemma trace_callCreateOrGet:
  "callCreateOrGet env kind xid w = (uid, w1) \<Longrightarrow> trace w1 = trace w @ [EvCreateOrGet kind xid uid]"
  by (auto simp add: callCreateOrGet_def split: prod.splits)

lemma setPodOwner_spec:
  assumes "setPodOwner env k8sPod owner pod w = (pod', w')"
  shows "\<exists>calls. trace w' = trace w @ map (\<lambda>(kind, xid, uid). EvCreateOrGet kind xid uid) calls
           \<and> map (\<lambda>(kind, xid, uid). (kind, xid)) calls = ownerCalls k8sPod [owner]
           \<and> (\<forall>kind \<in> ownerKinds. ownerField kind pod' =
                 (case lastResolved kind calls of None \<Rightarrow> ownerField kind pod | Some rel \<Rightarrow> Some rel))
           \<and> pod' = pod\<lparr>Deployment := Deployment pod', Replicaset := Replicaset pod',
                  Statefulset := Statefulset pod', Job := Job pod', Daemonset := Daemonset pod'\<rparr>"
proof -
  consider (D) "OwnerKind owner = ''Deployment''" | (R) "OwnerKind owner = ''ReplicaSet''"
    | (S) "OwnerKind owner = ''StatefulSet''" | (J) "OwnerKind owner = ''Job''"
    | (Da) "OwnerKind owner = ''DaemonSet''"
    | (U) "OwnerKind owner \<noteq> ''Deployment''" "OwnerKind owner \<noteq> ''ReplicaSet''"
          "OwnerKind owner \<noteq> ''StatefulSet''" "OwnerKind owner \<noteq> ''Job''"
          "OwnerKind owner \<noteq> ''DaemonSet''"
    by blast
  then show ?thesis
  proof cases
    case D
    obtain uid where c: "callCreateOrGet env KDeployment (k8sNamespace k8sPod @ '':'' @ OwnerName owner) w = (uid, w')"
      using assms D by (auto simp add: setPodOwner_def Let_def split: prod.splits)
    show ?thesis
      apply (rule exI [of _ "[(KDeployment, k8sNamespace k8sPod @ '':'' @ OwnerName owner, uid)]"])
      using assms D c trace_callCreateOrGet [OF c]
      by (auto simp add: setPodOwner_def Let_def ownerCalls_def List.map_filter_simps
            ownerKindOf_def lastResolved_single ownerKinds_def split: prod.splits)
  next
    case R
    obtain uid where c: "callCreateOrGet env KReplicaset (k8sNamespace k8sPod @ '':'' @ OwnerName owner) w = (uid, w')"
      using assms R by (auto simp add: setPodOwner_def Let_def split: prod.splits)
    show ?thesis
      apply (rule exI [of _ "[(KReplicaset, k8sNamespace k8sPod @ '':'' @ OwnerName owner, uid)]"])
      using assms R c trace_callCreateOrGet [OF c]
      by (auto simp add: setPodOwner_def Let_def ownerCalls_def List.map_filter_simps
            ownerKindOf_def lastResolved_single ownerKinds_def split: prod.splits)
  next
    case S
    obtain uid where c: "callCreateOrGet env KStatefulset (k8sNamespace k8sPod @ '':'' @ OwnerName owner) w = (uid, w')"
      using assms S by (auto simp add: setPodOwner_def Let_def split: prod.splits)
    show ?thesis
      apply (rule exI [of _ "[(KStatefulset, k8sNamespace k8sPod @ '':'' @ OwnerName owner, uid)]"])
      using assms S c trace_callCreateOrGet [OF c]
      by (auto simp add: setPodOwner_def Let_def ownerCalls_def List.map_filter_simps
            ownerKindOf_def lastResolved_single ownerKinds_def split: prod.splits)
  next
    case J
    obtain uid where c: "callCreateOrGet env KJob (k8sNamespace k8sPod @ '':'' @ OwnerName owner) w = (uid, w')"
      using assms J by (auto simp add: setPodOwner_def Let_def split: prod.splits)
    show ?thesis
      apply (rule exI [of _ "[(KJob, k8sNamespace k8sPod @ '':'' @ OwnerName owner, uid)]"])
      using assms J c trace_callCreateOrGet [OF c]
      by (auto simp add: setPodOwner_def Let_def ownerCalls_def List.map_filter_simps
            ownerKindOf_def lastResolved_single ownerKinds_def split: prod.splits)
  next
    case Da
    obtain uid where c: "callCreateOrGet env KDaemonset (k8sNamespace k8sPod @ '':'' @ OwnerName owner) w = (uid, w')"
      using assms Da by (auto simp add: setPodOwner_def Let_def split: prod.splits)
    show ?thesis
      apply (rule exI [of _ "[(KDaemonset, k8sNamespace k8sPod @ '':'' @ OwnerName owner, uid)]"])
      using assms Da c trace_callCreateOrGet [OF c]
      by (auto simp add: setPodOwner_def Let_def ownerCalls_def List.map_filter_simps
            ownerKindOf_def lastResolved_single ownerKinds_def split: prod.splits)
  next
    case U
    then have "pod' = pod" "w' = w"
      using assms by (auto simp add: setPodOwner_def)
    then show ?thesis
      using U by (auto simp add: ownerCalls_def List.map_filter_simps ownerKindOf_def
            intro!: exI [of _ "[]"])
  qed
qed

lemma ownerCalls_Cons:
  "ownerCalls k8sPod (owner # owners) = ownerCalls k8sPod [owner] @ ownerCalls k8sPod owners"
  by (simp add: ownerCalls_def List.map_filter_simps split: option.splits)

lemma setPodOwnersLoop_spec:
  assumes "setPodOwnersLoop env k8sPod owners pod w = (pod', w')"
  shows "\<exists>calls. trace w' = trace w @ map (\<lambda>(kind, xid, uid). EvCreateOrGet kind xid uid) calls
           \<and> map (\<lambda>(kind, xid, uid). (kind, xid)) calls = ownerCalls k8sPod owners
           \<and> (\<forall>kind \<in> ownerKinds. ownerField kind pod' =
                 (case lastResolved kind calls of None \<Rightarrow> ownerField kind pod | Some rel \<Rightarrow> Some rel))
           \<and> pod' = pod\<lparr>Deployment := Deployment pod', Replicaset := Replicaset pod',
                  Statefulset := Statefulset pod', Job := Job pod', Daemonset := Daemonset pod'\<rparr>"
  using assms
proof (induction owners arbitrary: pod w)
  case Nil
  then show ?case
    by (auto simp add: ownerCalls_def List.map_filter_simps intro!: exI [of _ "[]"])
next
  case (Cons owner owners)
  obtain pod1 w1 where b: "setPodOwner env k8sPod owner pod w = (pod1, w1)"
    by (cases "setPodOwner env k8sPod owner pod w")
  with Cons.prems have l: "setPodOwnersLoop env k8sPod owners pod1 w1 = (pod', w')"
    by simp
  from setPodOwner_spec [OF b] obtain cs where
    cs: "trace w1 = trace w @ map (\<lambda>(kind, xid, uid). EvCreateOrGet kind xid uid) cs"
        "map (\<lambda>(kind, xid, uid). (kind, xid)) cs = ownerCalls k8sPod [owner]"
        "\<forall>kind \<in> ownerKinds. ownerField kind pod1 =
           (case lastResolved kind cs of None \<Rightarrow> ownerField kind pod | Some rel \<Rightarrow> Some rel)"
        "pod1 = pod\<lparr>Deployment := Deployment pod1, Replicaset := Replicaset pod1,
                  Statefulset := Statefulset pod1, Job := Job pod1, Daemonset := Daemonset pod1\<rparr>"
    by blast
  from Cons.IH [OF l] obtain ds where
    ds: "trace w' = trace w1 @ map (\<lambda>(kind, xid, uid). EvCreateOrGet kind xid uid) ds"
        "map (\<lambda>(kind, xid, uid). (kind, xid)) ds = ownerCalls k8sPod owners"
        "\<forall>kind \<in> ownerKinds. ownerField kind pod' =
           (case lastResolved kind ds of None \<Rightarrow> ownerField kind pod1 | Some rel \<Rightarrow> Some rel)"
        "pod' = pod1\<lparr>Deployment := Deployment pod', Replicaset := Replicaset pod',
                  Statefulset := Statefulset pod', Job := Job pod', Daemonset := Daemonset pod'\<rparr>"
    by blast
  have 1: "trace w' = trace w @ map (\<lambda>(kind, xid, uid). EvCreateOrGet kind xid uid) (cs @ ds)"
    using cs(1) ds(1) by simp
  have 2: "map (\<lambda>(kind, xid, uid). (kind, xid)) (cs @ ds) = ownerCalls k8sPod (owner # owners)"
    using cs(2) ds(2) ownerCalls_Cons [of k8sPod owner owners] by simp
  have 3: "\<forall>kind \<in> ownerKinds. ownerField kind pod' =
           (case lastResolved kind (cs @ ds) of None \<Rightarrow> ownerField kind pod | Some rel \<Rightarrow> Some rel)"
    using cs(3) ds(3) by (auto simp add: lastResolved_append split: option.splits)
  have "pod' = (pod\<lparr>Deployment := Deployment pod1, Replicaset := Replicaset pod1,
                  Statefulset := Statefulset pod1, Job := Job pod1, Daemonset := Daemonset pod1\<rparr>)
               \<lparr>Deployment := Deployment pod', Replicaset := Replicaset pod',
                  Statefulset := Statefulset pod', Job := Job pod', Daemonset := Daemonset pod'\<rparr>"
    using cs(4) ds(4) by simp
  then have 4: "pod' = pod\<lparr>Deployment := Deployment pod', Replicaset := Replicaset pod',
                  Statefulset := Statefulset pod', Job := Job pod', Daemonset := Daemonset pod'\<rparr>"
    by simp
  show ?case
    using 1 2 3 4 by blast
qed

text \<open>
  Claim C5, as the code has it. \<^verbatim>\<open>setPodOwners\<close> calls the create-or-get
  collaborator of the kind once for every reference of a recognised kind, in the
  order of the list, for the external id \<^verbatim>\<open>namespace:ownerName\<close>, and calls nothing
  for a reference of any other kind. Each of the five owner fields ends holding the
  relation of the last reference of its kind that was answered with an id, or is
  left as it was when no reference of its kind was; no other field of the pod
  changes. The function has no error result, and the calls it makes are
  create-or-get calls only.
\<close>

theorem setPodOwners_last_resolved:
  assumes "setPodOwners env pod k8sPod w = (pod', w')"
  shows "since w w' = map (\<lambda>(kind, xid, uid). EvCreateOrGet kind xid uid) (createOrGetsOf (since w w'))
       \<and> map (\<lambda>(kind, xid, uid). (kind, xid)) (createOrGetsOf (since w w'))
           = ownerCalls k8sPod (k8sOwnerReferences k8sPod)
       \<and> (\<forall>kind \<in> ownerKinds. ownerField kind pod' =
             (case lastResolved kind (createOrGetsOf (since w w')) of
                None \<Rightarrow> ownerField kind pod
              | Some rel \<Rightarrow> Some rel))
       \<and> pod' = pod\<lparr>Deployment := Deployment pod', Replicaset := Replicaset pod',
                  Statefulset := Statefulset pod', Job := Job pod', Daemonset := Daemonset pod'\<rparr>"
proof -
  from assms have "setPodOwnersLoop env k8sPod (k8sOwnerReferences k8sPod) pod w = (pod', w')"
    by (simp add: setPodOwners_def)
  from setPodOwnersLoop_spec [OF this] obtain calls where
    c: "trace w' = trace w @ map (\<lambda>(kind, xid, uid). EvCreateOrGet kind xid uid) calls"
       "map (\<lambda>(kind, xid, uid). (kind, xid)) calls = ownerCalls k8sPod (k8sOwnerReferences k8sPod)"
       "\<forall>kind \<in> ownerKinds. ownerField kind pod' =
           (case lastResolved kind calls of None \<Rightarrow> ownerField kind pod | Some rel \<Rightarrow> Some rel)"
       "pod' = pod\<lparr>Deployment := Deployment pod', Replicaset := Replicaset pod',
                  Statefulset := Statefulset pod', Job := Job pod', Daemonset := Daemonset pod'\<rparr>"
    by blast
  have s: "since w w' = map (\<lambda>(kind, xid, uid). EvCreateOrGet kind xid uid) calls"
    using c(1) by (rule since_append)
  show ?thesis
    unfolding s createOrGetsOf_calls using c(2,3,4) by blast
qed

text \<open>Evaluation of the handler on the demonstration store.\<close>

lemma demoEnv_fields:
  "GetUID demoEnv = (\<lambda>xid pred s. if pred = ''isPod'' then lookupUID (podUIDs s) xid else [])"
  "MutateNode demoEnv = demoMutateNode"
  "createOrGetNodeByID demoEnv =
     (\<lambda>xid s. (if lookupUID (relatedUIDs s) xid = [] then Inl (Error ''node not found'')
                else Inr (lookupUID (relatedUIDs s) xid), s))"
  "CreateOrGetNamespaceByID demoEnv = demoCreateOrGet"
  "CreateOrGetDeploymentByID demoEnv = demoCreateOrGet"
  "CreateOrGetReplicasetByID demoEnv = demoCreateOrGet"
  "CreateOrGetStatefulsetByID demoEnv = demoCreateOrGet"
  "CreateOrGetJobByID demoEnv = demoCreateOrGet"
  "CreateOrGetDaemonsetByID demoEnv = demoCreateOrGet"
  "CreateOrGetPersistentVolumeClaimByID demoEnv = demoCreateOrGet"
  "getPVCFromUID demoEnv =
     (\<lambda>uid s. (case map_of (capacities s) uid of
                  None \<Rightarrow> Inl (Error ''pvc not found'')
                | Some c \<Rightarrow> Inr \<lparr>Xid = [], UID = uid, StorageCapacity = c\<rparr>, s))"
  "StoreAndRetrieveContainersAndMetrics demoEnv =
     (\<lambda>k8sPod uid namespaceUID s.
        (([], \<lparr>mCPURequest = 0, mCPULimit = 0, mMemoryRequest = 0, mMemoryLimit = 0\<rparr>), s))"
  "deleteContainersInTerminatedPod demoEnv = (\<lambda>containers t s. s)"
  "GetLabel demoEnv = (\<lambda>key val s. (\<lparr>Xid = key @ '':'' @ val, UID = ''0xa''\<rparr>, s))"
  "FormatRFC3339 demoEnv = (\<lambda>t. ''T'' @ replicate (nat t) (CHR ''s''))"
  by (simp_all add: demoEnv_def)

lemma demoPod_fields:
  "k8sName demoPod = ''p3''"
  "k8sNamespace demoPod = ''ns''"
  "k8sCreationTimestamp demoPod = 3"
  "k8sDeletionTimestamp demoPod = None"
  "k8sNodeName demoPod = ''n1''"
  "k8sVolumes demoPod = [\<lparr>VolumeName = ''v1'', ClaimName = Some ''c1''\<rparr>,
                         \<lparr>VolumeName = ''v2'', ClaimName = Some ''c2''\<rparr>,
                         \<lparr>VolumeName = ''v3'', ClaimName = Some ''c3''\<rparr>,
                         \<lparr>VolumeName = ''v4'', ClaimName = None\<rparr>]"
  "k8sOwnerReferences demoPod = [\<lparr>OwnerKind = ''ReplicaSet'', OwnerName = ''rs1''\<rparr>,
                                 \<lparr>OwnerKind = ''Widget'', OwnerName = ''x''\<rparr>]"
  "k8sLabels demoPod = [(''app'', ''web'')]"
  by (simp_all add: demoPod_def)

lemmas demo_simps =
  demoEnv_fields demoPod_fields demoCreateOrGet_def demoMutateNode_def lookupUID_def
  demoWorld_def demoStore_def freshUID_def IsPodConst_def Let_def eval_nat_numeral
  callCreateOrGet_def callCreateOrGetNode_def callMutateNode_def callGetPVCFromUID_def
  callStoreContainers_def callDeleteContainers_def callGetLabel_def

lemma demo_setPodOwners:
  "setPodOwners demoEnv Pod0 demoPod demoWorld =
     (Pod0\<lparr>Replicaset := Some \<lparr>Xid = ''ns:rs1'', UID = ''0xc''\<rparr>\<rparr>,
      \<lparr>store = demoStore, trace = [EvCreateOrGet KReplicaset ''ns:rs1'' ''0xc'']\<rparr>)"
  by (simp add: setPodOwners_def setPodOwner_def demo_simps)

theorem setPodOwners_last_resolved_witness:
  "setPodOwners demoEnv Pod0 demoPod demoWorld =
     (Pod0\<lparr>Replicaset := Some \<lparr>Xid = ''ns:rs1'', UID = ''0xc''\<rparr>\<rparr>,
      \<lparr>store = demoStore, trace = [EvCreateOrGet KReplicaset ''ns:rs1'' ''0xc'']\<rparr>)
   \<and> ownerCalls demoPod (k8sOwnerReferences demoPod) = [(KReplicaset, ''ns:rs1'')]
   \<and> ownerField KReplicaset (Pod0\<lparr>Replicaset := Some \<lparr>Xid = ''ns:rs1'', UID = ''0xc''\<rparr>\<rparr> :: real Pod)
       = Some \<lparr>Xid = ''ns:rs1'', UID = ''0xc''\<rparr>
   \<and> ownerField KDeployment (Pod0\<lparr>Replicaset := Some \<lparr>Xid = ''ns:rs1'', UID = ''0xc''\<rparr>\<rparr> :: real Pod)
       = ownerField KDeployment (Pod0 :: real Pod)"
proof -
  let ?w = "\<lparr>store = demoStore, trace = [EvCreateOrGet KReplicaset ''ns:rs1'' ''0xc'' :: real Event]\<rparr>"
  have s: "since demoWorld ?w = [EvCreateOrGet KReplicaset ''ns:rs1'' ''0xc'']"
    by (simp add: since_def demoWorld_def)
  have k: "KReplicaset \<in> ownerKinds" "KDeployment \<in> ownerKinds"
    by (simp_all add: ownerKinds_def)
  show ?thesis
    using setPodOwners_last_resolved [OF demo_setPodOwners] demo_setPodOwners k
    by (simp add: s lastResolved_single lastResolved_def)
qed

text \<open>
  Claim C5 as stated fails on two references of one kind: both deployments resolve,
  and the field holds the second only, so the relation to \<^verbatim>\<open>ns:d1\<close> is not in the
  field that matches its kind.
\<close>

theorem setPodOwners_same_kind_overwrites:
  "fst (CreateOrGetDeploymentByID demoEnv ''ns:d1'' demoStore) = ''0xd''
   \<and> Deployment (fst (setPodOwners demoEnv Pod0
        (demoPod\<lparr>k8sOwnerReferences := [\<lparr>OwnerKind = ''Deployment'', OwnerName = ''d1''\<rparr>,
                                         \<lparr>OwnerKind = ''Deployment'', OwnerName = ''d2''\<rparr>]\<rparr>)
        demoWorld))
     = Some \<lparr>Xid = ''ns:d2'', UID = ''0xe''\<rparr>
   \<and> Some \<lparr>Xid = ''ns:d2'', UID = ''0xe''\<rparr> \<noteq> Some \<lparr>Xid = ''ns:d1'', UID = ''0xd''\<rparr>"
  by (simp add: setPodOwners_def setPodOwner_def demo_simps)

subsection \<open>Volume claims\<close>

lemma mutationsOf_append [simp]: "mutationsOf (xs @ ys) = mutationsOf xs @ mutationsOf ys"
  by (induction xs rule: mutationsOf.induct) auto

lemma createOrGetsOf_append [simp]:
  "createOrGetsOf (xs @ ys) = createOrGetsOf xs @ createOrGetsOf ys"
  by (induction xs rule: createOrGetsOf.induct) auto

lemma pvcLookupsOf_append [simp]: "pvcLookupsOf (xs @ ys) = pvcLookupsOf xs @ pvcLookupsOf ys"
  by (induction xs rule: pvcLookupsOf.induct) auto

lemma cascadesOf_append [simp]: "cascadesOf (xs @ ys) = cascadesOf xs @ cascadesOf ys"
  by (induction xs rule: cascadesOf.induct) auto

lemma attachedClaims_append:
  "attachedClaims (cs @ ds) = attachedClaims cs @ attachedClaims ds"
  by (simp add: attachedClaims_def)

lemma capacitiesOf_append: "capacitiesOf (xs @ ys) = capacitiesOf xs @ capacitiesOf ys"
  by (simp add: capacitiesOf_def List.map_filter_def)

lemma claimCalls_Cons:
  "claimCalls k8sPod (vol # vols) =
     (case ClaimName vol of
        None \<Rightarrow> claimCalls k8sPod vols
      | Some claimName \<Rightarrow>
          (KPersistentVolumeClaim, k8sNamespace k8sPod @ '':'' @ claimName) # claimCalls k8sPod vols)"
  by (simp add: claimCalls_def List.map_filter_simps split: option.splits)

lemma trace_callGetPVCFromUID:
  "callGetPVCFromUID env uid w = (r, w1) \<Longrightarrow> trace w1 = trace w @ [EvGetPVC uid r]"
  by (auto simp add: callGetPVCFromUID_def split: prod.splits)

lemma getPodVolumesLoop_spec:
  fixes env :: "('s, 'f::{zero,plus}) Env"
  assumes "getPodVolumesLoop env k8sPod vols podVolumes storage w = ((pvcs, storage'), w')"
  shows "\<exists>evs. trace w' = trace w @ evs
           \<and> pvcs = podVolumes @ attachedClaims (createOrGetsOf evs)
           \<and> storage' = foldl (+) storage (capacitiesOf (pvcLookupsOf evs))
           \<and> map (\<lambda>(kind, xid, uid). (kind, xid)) (createOrGetsOf evs) = claimCalls k8sPod vols
           \<and> map fst (pvcLookupsOf evs)
               = map UID (attachedClaims (createOrGetsOf evs) :: 'f PersistentVolumeClaim list)
           \<and> mutationsOf evs = [] \<and> cascadesOf evs = []"
  using assms
proof (induction vols arbitrary: podVolumes storage w)
  case Nil
  then show ?case
    by (auto simp add: attachedClaims_def capacitiesOf_def claimCalls_def List.map_filter_simps
          intro!: exI [of _ "[]"])
next
  case (Cons vol vols)
  show ?case
  proof (cases "ClaimName vol")
    case None
    with Cons.prems have "getPodVolumesLoop env k8sPod vols podVolumes storage w = ((pvcs, storage'), w')"
      by simp
    from Cons.IH [OF this] show ?thesis
      using None by (simp add: claimCalls_Cons)
  next
    case (Some claimName)
    let ?xid = "k8sNamespace k8sPod @ '':'' @ claimName"
    obtain uid w1 where c: "callCreateOrGet env KPersistentVolumeClaim ?xid w = (uid, w1)"
      by (cases "callCreateOrGet env KPersistentVolumeClaim ?xid w")
    note t1 = trace_callCreateOrGet [OF c]
    show ?thesis
    proof (cases "uid = []")
      case True
      with Cons.prems Some c
      have "getPodVolumesLoop env k8sPod vols podVolumes storage w1 = ((pvcs, storage'), w')"
        by (simp add: Let_def)
      from Cons.IH [OF this] obtain evs where
        e: "trace w' = trace w1 @ evs"
           "pvcs = podVolumes @ attachedClaims (createOrGetsOf evs)"
           "storage' = foldl (+) storage (capacitiesOf (pvcLookupsOf evs))"
           "map (\<lambda>(kind, xid, uid). (kind, xid)) (createOrGetsOf evs) = claimCalls k8sPod vols"
           "map fst (pvcLookupsOf evs)
               = map UID (attachedClaims (createOrGetsOf evs) :: 'f PersistentVolumeClaim list)"
           "mutationsOf evs = []" "cascadesOf evs = []"
        by blast
      show ?thesis
        apply (rule exI [of _ "EvCreateOrGet KPersistentVolumeClaim ?xid uid # evs"])
        using e t1 True Some
        by (simp add: claimCalls_Cons attachedClaims_def)
    next
      case False
      let ?pv1 = "podVolumes @ [\<lparr>Xid = ?xid, UID = uid, StorageCapacity = 0\<rparr>]"
      obtain r w2 where g: "callGetPVCFromUID env uid w1 = (r, w2)"
        by (cases "callGetPVCFromUID env uid w1")
      note t2 = trace_callGetPVCFromUID [OF g]
      let ?st1 = "case r of Inl err \<Rightarrow> storage | Inr pvc \<Rightarrow> storage + StorageCapacity pvc"
      from Cons.prems Some c False g
      have "getPodVolumesLoop env k8sPod vols ?pv1 ?st1 w2 = ((pvcs, storage'), w')"
        by (simp add: Let_def split: sum.splits)
      from Cons.IH [OF this] obtain evs where
        e: "trace w' = trace w2 @ evs"
           "pvcs = ?pv1 @ attachedClaims (createOrGetsOf evs)"
           "storage' = foldl (+) ?st1 (capacitiesOf (pvcLookupsOf evs))"
           "map (\<lambda>(kind, xid, uid). (kind, xid)) (createOrGetsOf evs) = claimCalls k8sPod vols"
           "map fst (pvcLookupsOf evs)
               = map UID (attachedClaims (createOrGetsOf evs) :: 'f PersistentVolumeClaim list)"
           "mutationsOf evs = []" "cascadesOf evs = []"
        by blast
      show ?thesis
        apply (rule exI [of _ "EvCreateOrGet KPersistentVolumeClaim ?xid uid # EvGetPVC uid r # evs"])
        using e t1 t2 False Some
        by (simp add: claimCalls_Cons attachedClaims_def capacitiesOf_def List.map_filter_simps
              split: sum.splits)
    qed
  qed
qed

subsection \<open>The create-phase entity\<close>

lemma trace_callCreateOrGetNode:
  "callCreateOrGetNode env xid w = (r, w1) \<Longrightarrow> trace w1 = trace w @ [EvCreateOrGetNode xid r]"
  by (auto simp add: callCreateOrGetNode_def split: prod.splits)

lemma callMutateNode_spec:
  "callMutateNode env pod m w = (r, w1) \<Longrightarrow>
     trace w1 = trace w @ [EvMutateNode pod m r] \<and> (r, store w1) = MutateNode env pod m (store w)"
  by (auto simp add: callMutateNode_def split: prod.splits)

lemma pvcLookupsOf_calls [simp]:
  "pvcLookupsOf (map (\<lambda>(kind, xid, uid). EvCreateOrGet kind xid uid) calls) = []"
  by (induction calls) auto

lemma cascadesOf_calls [simp]:
  "cascadesOf (map (\<lambda>(kind, xid, uid). EvCreateOrGet kind xid uid) calls) = []"
  by (induction calls) auto

text \<open>
  The entity \<^verbatim>\<open>newPod\<close> builds, field by field, from the answers it was given: the
  node and namespace calls come first, then the calls for the volumes, then the
  calls for the owners.
\<close>

lemma newPodEntity_spec:
  fixes env :: "('s, 'f::{zero,plus}) Env"
  assumes "newPodEntity env k8sPod w = (pod, w')"
  shows "\<exists>rn nsUID vevs ocalls.
      trace w' = trace w @ EvCreateOrGetNode (k8sNodeName k8sPod) rn
                   # EvCreateOrGet KNamespace (k8sNamespace k8sPod) nsUID
                   # vevs @ map (\<lambda>(kind, xid, uid). EvCreateOrGet kind xid uid) ocalls
    \<and> map (\<lambda>(kind, xid, uid). (kind, xid)) (createOrGetsOf vevs)
        = claimCalls k8sPod (k8sVolumes k8sPod)
    \<and> map fst (pvcLookupsOf vevs)
        = map UID (attachedClaims (createOrGetsOf vevs) :: 'f PersistentVolumeClaim list)
    \<and> mutationsOf vevs = [] \<and> cascadesOf vevs = []
    \<and> map (\<lambda>(kind, xid, uid). (kind, xid)) ocalls
        = ownerCalls k8sPod (k8sOwnerReferences k8sPod)
    \<and> pod = Pod0\<lparr>Name := ''pod-'' @ k8sName k8sPod, IsPod := True, Type := ''pod'',
                Xid := k8sNamespace k8sPod @ '':'' @ k8sName k8sPod,
                StartTime := FormatRFC3339 env (k8sCreationTimestamp k8sPod),
                Node := (case rn of Inl err \<Rightarrow> None
                         | Inr nodeUID \<Rightarrow> Some \<lparr>Xid = k8sNodeName k8sPod, UID = nodeUID\<rparr>),
                Namespace := (if nsUID = [] then None
                              else Some \<lparr>Xid = k8sNamespace k8sPod, UID = nsUID\<rparr>),
                Pvcs := attachedClaims (createOrGetsOf vevs),
                StorageRequest := foldl (+) 0 (capacitiesOf (pvcLookupsOf vevs)),
                Deployment := lastResolved KDeployment ocalls,
                Replicaset := lastResolved KReplicaset ocalls,
                Statefulset := lastResolved KStatefulset ocalls,
                Job := lastResolved KJob ocalls,
                Daemonset := lastResolved KDaemonset ocalls\<rparr>"
proof -
  obtain rn w1 where n: "callCreateOrGetNode env (k8sNodeName k8sPod) w = (rn, w1)"
    by (cases "callCreateOrGetNode env (k8sNodeName k8sPod) w")
  obtain nsUID w2 where ns: "callCreateOrGet env KNamespace (k8sNamespace k8sPod) w1 = (nsUID, w2)"
    by (cases "callCreateOrGet env KNamespace (k8sNamespace k8sPod) w1")
  obtain pvcs storage w3 where v: "getPodVolumes env k8sPod w2 = ((pvcs, storage), w3)"
    by (cases "getPodVolumes env k8sPod w2") auto
  let ?pod2 = "Pod0\<lparr>Name := ''pod-'' @ k8sName k8sPod, IsPod := True, Type := ''pod'',
                Xid := k8sNamespace k8sPod @ '':'' @ k8sName k8sPod,
                StartTime := FormatRFC3339 env (k8sCreationTimestamp k8sPod),
                Node := (case rn of Inl err \<Rightarrow> None
                         | Inr nodeUID \<Rightarrow> Some \<lparr>Xid = k8sNodeName k8sPod, UID = nodeUID\<rparr>),
                Namespace := (if nsUID = [] then None
                              else Some \<lparr>Xid = k8sNamespace k8sPod, UID = nsUID\<rparr>)\<rparr> :: 'f Pod"
  let ?pod3 = "?pod2\<lparr>Pvcs := pvcs, StorageRequest := storage\<rparr>"
  have o: "setPodOwners env ?pod3 k8sPod w3 = (pod, w')"
    using assms n ns v
    by (auto simp add: newPodEntity_def Let_def Pod0_def split: sum.splits)
  from v have "getPodVolumesLoop env k8sPod (k8sVolumes k8sPod) [] 0 w2 = ((pvcs, storage), w3)"
    by (simp add: getPodVolumes_def)
  from getPodVolumesLoop_spec [OF this] obtain vevs where
    ve: "trace w3 = trace w2 @ vevs"
        "pvcs = attachedClaims (createOrGetsOf vevs)"
        "storage = foldl (+) 0 (capacitiesOf (pvcLookupsOf vevs))"
        "map (\<lambda>(kind, xid, uid). (kind, xid)) (createOrGetsOf vevs)
           = claimCalls k8sPod (k8sVolumes k8sPod)"
        "map fst (pvcLookupsOf vevs)
           = map UID (attachedClaims (createOrGetsOf vevs) :: 'f PersistentVolumeClaim list)"
        "mutationsOf vevs = []" "cascadesOf vevs = []"
    by auto
  from o have "setPodOwnersLoop env k8sPod (k8sOwnerReferences k8sPod) ?pod3 w3 = (pod, w')"
    by (simp add: setPodOwners_def)
  from setPodOwnersLoop_spec [OF this] obtain ocalls where
    oc: "trace w' = trace w3 @ map (\<lambda>(kind, xid, uid). EvCreateOrGet kind xid uid) ocalls"
        "map (\<lambda>(kind, xid, uid). (kind, xid)) ocalls
           = ownerCalls k8sPod (k8sOwnerReferences k8sPod)"
        "\<forall>kind \<in> ownerKinds. ownerField kind pod =
           (case lastResolved kind ocalls of None \<Rightarrow> ownerField kind ?pod3 | Some rel \<Rightarrow> Some rel)"
        "pod = ?pod3\<lparr>Deployment := Deployment pod, Replicaset := Replicaset pod,
                  Statefulset := Statefulset pod, Job := Job pod, Daemonset := Daemonset pod\<rparr>"
    by blast
  have f: "Deployment pod = lastResolved KDeployment ocalls"
          "Replicaset pod = lastResolved KReplicaset ocalls"
          "Statefulset pod = lastResolved KStatefulset ocalls"
          "Job pod = lastResolved KJob ocalls"
          "Daemonset pod = lastResolved KDaemonset ocalls"
    using oc(3) by (auto simp add: ownerKinds_def Pod0_def split: option.splits)
  have t: "trace w' = trace w @ EvCreateOrGetNode (k8sNodeName k8sPod) rn
                   # EvCreateOrGet KNamespace (k8sNamespace k8sPod) nsUID
                   # vevs @ map (\<lambda>(kind, xid, uid). EvCreateOrGet kind xid uid) ocalls"
    using trace_callCreateOrGetNode [OF n] trace_callCreateOrGet [OF ns] ve(1) oc(1) by simp
  have p: "pod = ?pod2\<lparr>Pvcs := attachedClaims (createOrGetsOf vevs),
                StorageRequest := foldl (+) 0 (capacitiesOf (pvcLookupsOf vevs)),
                Deployment := lastResolved KDeployment ocalls,
                Replicaset := lastResolved KReplicaset ocalls,
                Statefulset := lastResolved KStatefulset ocalls,
                Job := lastResolved KJob ocalls,
                Daemonset := lastResolved KDaemonset ocalls\<rparr>"
    using oc(4) unfolding f ve(2) ve(3) by simp
  show ?thesis
    using t ve(4,5,6,7) oc(2) p by blast
qed

text \<open>The handler on the demonstration pod.\<close>

lemma demo_getPodVolumes:
  "getPodVolumes demoEnv demoPod demoWorld =
     (([\<lparr>Xid = ''ns:c1'', UID = ''0xf'', StorageCapacity = 0\<rparr>,
        \<lparr>Xid = ''ns:c2'', UID = ''0xf2'', StorageCapacity = 0\<rparr>], 10),
      \<lparr>store = demoStore, trace = demoVolumeTrace\<rparr>)"
  by (simp add: getPodVolumes_def demoVolumeTrace_def demo_simps)

lemma demo_newPod:
  "newPod demoEnv demoPod demoWorld =
     (Inr \<lparr>Uids = [''blank-0'' \<mapsto> ''0x111'']\<rparr>,
      \<lparr>store = demoStoreCreated, trace = demoCreateTrace\<rparr>)"
  by (simp add: newPod_def newPodEntity_def getPodVolumes_def setPodOwners_def setPodOwner_def
        demoCreated_def demoCreateTrace_def demoVolumeTrace_def demoStoreCreated_def demo_simps)

lemma ownerCalls_kinds: "(kind, xid) \<in> set (ownerCalls k8sPod owners) \<Longrightarrow> kind \<in> ownerKinds"
  by (auto simp add: ownerCalls_def List.map_filter_def ownerKindOf_def ownerKinds_def
        split: if_splits)

lemma claimCalls_kinds:
  "(kind, xid) \<in> set (claimCalls k8sPod vols) \<Longrightarrow> kind = KPersistentVolumeClaim"
  by (auto simp add: claimCalls_def List.map_filter_def)

lemma filter_claims_all:
  assumes "map (\<lambda>(kind, xid, uid). (kind, xid)) calls = claimCalls k8sPod vols"
  shows "filter (\<lambda>(kind, xid). kind = KPersistentVolumeClaim)
           (map (\<lambda>(kind, xid, uid). (kind, xid)) calls) = claimCalls k8sPod vols"
  unfolding assms using claimCalls_kinds [of _ _ k8sPod vols]
  by (auto simp add: filter_id_conv)

lemma filter_claims_none:
  assumes "map (\<lambda>(kind, xid, uid). (kind, xid)) calls = ownerCalls k8sPod owners"
  shows "filter (\<lambda>(kind, xid). kind = KPersistentVolumeClaim)
           (map (\<lambda>(kind, xid, uid). (kind, xid)) calls) = []"
  unfolding assms using ownerCalls_kinds [of _ _ k8sPod owners]
  by (auto simp add: filter_empty_conv ownerKinds_def)

lemma attachedClaims_owners:
  assumes "map (\<lambda>(kind, xid, uid). (kind, xid)) calls = ownerCalls k8sPod owners"
  shows "attachedClaims calls = []"
proof -
  have "kind \<noteq> KPersistentVolumeClaim" if "(kind, xid, uid) \<in> set calls" for kind xid uid
  proof -
    from that have "(kind, xid) \<in> set (map (\<lambda>(kind, xid, uid). (kind, xid)) calls)"
      by force
    then have "kind \<in> ownerKinds"
      unfolding assms by (rule ownerCalls_kinds)
    then show ?thesis by (auto simp add: ownerKinds_def)
  qed
  then show ?thesis
    by (auto simp add: attachedClaims_def filter_empty_conv)
qed

lemma lastResolved_other_kind:
  assumes "\<forall>(kind', xid, uid) \<in> set cs. kind' \<noteq> kind"
  shows "lastResolved kind (cs @ ds) = lastResolved kind ds"
proof -
  have "filter (\<lambda>(kind', xid, uid). kind' = kind \<and> uid \<noteq> []) cs = []"
    using assms by (auto simp add: filter_empty_conv)
  then show ?thesis by (simp add: lastResolved_def)
qed

lemma claims_not_owner_kind:
  assumes "map (\<lambda>(kind, xid, uid). (kind, xid)) calls = claimCalls k8sPod vols"
    and "kind \<in> ownerKinds"
  shows "\<forall>(kind', xid, uid) \<in> set calls. kind' \<noteq> kind"
proof -
  have "kind' = KPersistentVolumeClaim" if "(kind', xid, uid) \<in> set calls" for kind' xid uid
  proof -
    from that have "(kind', xid) \<in> set (map (\<lambda>(kind, xid, uid). (kind, xid)) calls)"
      by force
    then show ?thesis
      unfolding assms(1) by (rule claimCalls_kinds)
  qed
  then show ?thesis
    using assms(2) by (auto simp add: ownerKinds_def)
qed

text \<open>
  \<^verbatim>\<open>newPod\<close> as a whole: the trace of the call, the entity it hands to the one
  \<^verbatim>\<open>CREATE\<close> mutation, and its result, which is the store's answer to that mutation.
\<close>

lemma newPod_spec:
  fixes env :: "('s, 'f::{zero,plus}) Env"
  assumes "newPod env k8sPod w = (r, w')"
  shows "\<exists>pod rn nsUID evs.
      since w w' = EvCreateOrGetNode (k8sNodeName k8sPod) rn
                   # EvCreateOrGet KNamespace (k8sNamespace k8sPod) nsUID
                   # evs @ [EvMutateNode pod CREATE r]
    \<and> (\<exists>s. (r, store w') = MutateNode env pod CREATE s)
    \<and> mutationsOf evs = [] \<and> cascadesOf evs = []
    \<and> filter (\<lambda>(kind, xid). kind = KPersistentVolumeClaim)
         (map (\<lambda>(kind, xid, uid). (kind, xid)) (createOrGetsOf evs))
        = claimCalls k8sPod (k8sVolumes k8sPod)
    \<and> map fst (pvcLookupsOf evs) = map UID (Pvcs pod)
    \<and> IsPod pod \<and> Xid pod = k8sNamespace k8sPod @ '':'' @ k8sName k8sPod \<and> UID pod = []
    \<and> Node pod = (case rn of Inl err \<Rightarrow> None
                   | Inr nodeUID \<Rightarrow> Some \<lparr>Xid = k8sNodeName k8sPod, UID = nodeUID\<rparr>)
    \<and> Namespace pod = (if nsUID = [] then None
                        else Some \<lparr>Xid = k8sNamespace k8sPod, UID = nsUID\<rparr>)
    \<and> Pvcs pod = attachedClaims (createOrGetsOf evs)
    \<and> StorageRequest pod = foldl (+) 0 (capacitiesOf (pvcLookupsOf evs))
    \<and> (\<forall>kind \<in> ownerKinds. ownerField kind pod = lastResolved kind (createOrGetsOf evs))"
proof -
  obtain pod w1 where e: "newPodEntity env k8sPod w = (pod, w1)"
    by (cases "newPodEntity env k8sPod w")
  with assms have m: "callMutateNode env pod CREATE w1 = (r, w')"
    by (simp add: newPod_def)
  from newPodEntity_spec [OF e] obtain rn nsUID vevs ocalls where
    t: "trace w1 = trace w @ EvCreateOrGetNode (k8sNodeName k8sPod) rn
                   # EvCreateOrGet KNamespace (k8sNamespace k8sPod) nsUID
                   # vevs @ map (\<lambda>(kind, xid, uid). EvCreateOrGet kind xid uid) ocalls"
    and vc: "map (\<lambda>(kind, xid, uid). (kind, xid)) (createOrGetsOf vevs)
        = claimCalls k8sPod (k8sVolumes k8sPod)"
    and vl: "map fst (pvcLookupsOf vevs)
        = map UID (attachedClaims (createOrGetsOf vevs) :: 'f PersistentVolumeClaim list)"
    and vm: "mutationsOf vevs = []" "cascadesOf vevs = []"
    and oc: "map (\<lambda>(kind, xid, uid). (kind, xid)) ocalls
        = ownerCalls k8sPod (k8sOwnerReferences k8sPod)"
    and p: "pod = Pod0\<lparr>Name := ''pod-'' @ k8sName k8sPod, IsPod := True, Type := ''pod'',
                Xid := k8sNamespace k8sPod @ '':'' @ k8sName k8sPod,
                StartTime := FormatRFC3339 env (k8sCreationTimestamp k8sPod),
                Node := (case rn of Inl err \<Rightarrow> None
                         | Inr nodeUID \<Rightarrow> Some \<lparr>Xid = k8sNodeName k8sPod, UID = nodeUID\<rparr>),
                Namespace := (if nsUID = [] then None
                              else Some \<lparr>Xid = k8sNamespace k8sPod, UID = nsUID\<rparr>),
                Pvcs := attachedClaims (createOrGetsOf vevs),
                StorageRequest := foldl (+) 0 (capacitiesOf (pvcLookupsOf vevs)),
                Deployment := lastResolved KDeployment ocalls,
                Replicaset := lastResolved KReplicaset ocalls,
                Statefulset := lastResolved KStatefulset ocalls,
                Job := lastResolved KJob ocalls,
                Daemonset := lastResolved KDaemonset ocalls\<rparr>"
    by blast
  let ?evs = "vevs @ map (\<lambda>(kind, xid, uid). EvCreateOrGet kind xid uid) ocalls"
  have s: "since w w' = EvCreateOrGetNode (k8sNodeName k8sPod) rn
                   # EvCreateOrGet KNamespace (k8sNamespace k8sPod) nsUID
                   # ?evs @ [EvMutateNode pod CREATE r]"
    using callMutateNode_spec [OF m] t by (simp add: since_def)
  have st: "\<exists>s. (r, store w') = MutateNode env pod CREATE s"
    using callMutateNode_spec [OF m] by blast
  have 1: "mutationsOf ?evs = []" "cascadesOf ?evs = []"
    using vm by simp_all
  have 2: "filter (\<lambda>(kind, xid). kind = KPersistentVolumeClaim)
         (map (\<lambda>(kind, xid, uid). (kind, xid)) (createOrGetsOf ?evs))
        = claimCalls k8sPod (k8sVolumes k8sPod)"
    using filter_claims_all [OF vc] filter_claims_none [OF oc] by simp
  have 3: "Pvcs pod = attachedClaims (createOrGetsOf ?evs)"
    using attachedClaims_owners [OF oc] by (simp add: p attachedClaims_append)
  have 4: "map fst (pvcLookupsOf ?evs) = map UID (Pvcs pod)"
    using vl by (simp add: p)
  have 5: "StorageRequest pod = foldl (+) 0 (capacitiesOf (pvcLookupsOf ?evs))"
    by (simp add: p)
  have 6: "\<forall>kind \<in> ownerKinds. ownerField kind pod = lastResolved kind (createOrGetsOf ?evs)"
  proof
    fix kind assume k: "kind \<in> ownerKinds"
    have "lastResolved kind (createOrGetsOf ?evs) = lastResolved kind ocalls"
      using lastResolved_other_kind [OF claims_not_owner_kind [OF vc k]] by simp
    then show "ownerField kind pod = lastResolved kind (createOrGetsOf ?evs)"
      using k by (auto simp add: p ownerKinds_def)
  qed
  have 7: "IsPod pod" "Xid pod = k8sNamespace k8sPod @ '':'' @ k8sName k8sPod" "UID pod = []"
     "Node pod = (case rn of Inl err \<Rightarrow> None
                   | Inr nodeUID \<Rightarrow> Some \<lparr>Xid = k8sNodeName k8sPod, UID = nodeUID\<rparr>)"
     "Namespace pod = (if nsUID = [] then None
                        else Some \<lparr>Xid = k8sNamespace k8sPod, UID = nsUID\<rparr>)"
    by (simp_all add: p Pod0_def)
  show ?thesis
    using s st 1 2 3 4 5 6 7 by blast
qed

text \<open>
  Claim C10. \<^verbatim>\<open>getPodVolumes\<close> asks the claim collaborator once per volume that names
  a claim, in order. The relation list it returns holds every claim that was
  answered with an id, whatever the capacity lookup for it then answered; there is
  one capacity lookup per attached claim, for its id; the storage is the sum, from
  \<^verbatim>\<open>0.0\<close> and in order, of the capacities of the lookups that succeeded, so a
  failed lookup adds nothing. Only a claim answered with the empty id is missing
  from the list.
\<close>

theorem getPodVolumes_attaches_before_capacity:
  fixes env :: "('s, 'f::{zero,plus}) Env"
  assumes "getPodVolumes env k8sPod w = ((pvcs, storage), w')"
  shows "map (\<lambda>(kind, xid, uid). (kind, xid)) (createOrGetsOf (since w w'))
           = claimCalls k8sPod (k8sVolumes k8sPod)
       \<and> pvcs = attachedClaims (createOrGetsOf (since w w'))
       \<and> map fst (pvcLookupsOf (since w w')) = map UID pvcs
       \<and> storage = foldl (+) 0 (capacitiesOf (pvcLookupsOf (since w w')))"
proof -
  from assms
  have "getPodVolumesLoop env k8sPod (k8sVolumes k8sPod) [] 0 w = ((pvcs, storage), w')"
    by (simp add: getPodVolumes_def)
  from getPodVolumesLoop_spec [OF this] obtain evs where
    e: "trace w' = trace w @ evs"
       "pvcs = [] @ attachedClaims (createOrGetsOf evs)"
       "storage = foldl (+) 0 (capacitiesOf (pvcLookupsOf evs))"
       "map (\<lambda>(kind, xid, uid). (kind, xid)) (createOrGetsOf evs)
          = claimCalls k8sPod (k8sVolumes k8sPod)"
       "map fst (pvcLookupsOf evs)
          = map UID (attachedClaims (createOrGetsOf evs) :: 'f PersistentVolumeClaim list)"
    by blast
  have s: "since w w' = evs"
    using e(1) by (rule since_append)
  show ?thesis
    unfolding s using e(2,3,4,5) by simp
qed

theorem getPodVolumes_attaches_before_capacity_witness:
  "getPodVolumes demoEnv demoPod demoWorld =
     (([\<lparr>Xid = ''ns:c1'', UID = ''0xf'', StorageCapacity = 0\<rparr>,
        \<lparr>Xid = ''ns:c2'', UID = ''0xf2'', StorageCapacity = 0\<rparr>], 10),
      \<lparr>store = demoStore, trace = demoVolumeTrace\<rparr>)
   \<and> pvcLookupsOf demoVolumeTrace =
       [(''0xf'', Inr \<lparr>Xid = [], UID = ''0xf'', StorageCapacity = 10\<rparr>),
        (''0xf2'', Inl (Error ''pvc not found''))]
   \<and> createOrGetsOf demoVolumeTrace =
       [(KPersistentVolumeClaim, ''ns:c1'', ''0xf''), (KPersistentVolumeClaim, ''ns:c2'', ''0xf2''),
        (KPersistentVolumeClaim, ''ns:c3'', [])]
   \<and> (attachedClaims (createOrGetsOf demoVolumeTrace) :: real PersistentVolumeClaim list) =
       [\<lparr>Xid = ''ns:c1'', UID = ''0xf'', StorageCapacity = 0\<rparr>,
        \<lparr>Xid = ''ns:c2'', UID = ''0xf2'', StorageCapacity = 0\<rparr>]
   \<and> foldl (+) 0 (capacitiesOf (pvcLookupsOf demoVolumeTrace)) = (10 :: real)"
proof -
  have s: "since demoWorld \<lparr>store = demoStore, trace = demoVolumeTrace\<rparr> = demoVolumeTrace"
    by (simp add: since_def demoWorld_def)
  show ?thesis
    using getPodVolumes_attaches_before_capacity [OF demo_getPodVolumes] demo_getPodVolumes
    unfolding s
    by (simp add: demoVolumeTrace_def attachedClaims_def capacitiesOf_def List.map_filter_simps)
qed

text \<open>
  Claim C6. The entity \<^verbatim>\<open>newPod\<close> hands to its one \<^verbatim>\<open>CREATE\<close> mutation has, as storage
  request, the sum (from \<^verbatim>\<open>0.0\<close>, in the order of the volumes) of the capacities of
  the capacity lookups that succeeded. A lookup is made for exactly the claims that
  were answered with an id, and the claims asked for are the volumes' claims. A
  claim that does not resolve, or whose capacity cannot be read, adds nothing, and
  the result of \<^verbatim>\<open>newPod\<close> is the store's answer to the mutation whatever the claims
  did.
\<close>

theorem newPod_storage_request:
  fixes env :: "('s, 'f::{zero,plus}) Env"
  assumes "newPod env k8sPod w = (r, w')"
  shows "\<exists>pod. mutationsOf (since w w') = [(pod, CREATE, r)]
       \<and> (\<exists>s. (r, store w') = MutateNode env pod CREATE s)
       \<and> StorageRequest pod = foldl (+) 0 (capacitiesOf (pvcLookupsOf (since w w')))
       \<and> map fst (pvcLookupsOf (since w w')) = map UID (Pvcs pod)
       \<and> Pvcs pod = attachedClaims (createOrGetsOf (since w w'))
       \<and> filter (\<lambda>(kind, xid). kind = KPersistentVolumeClaim)
            (map (\<lambda>(kind, xid, uid). (kind, xid)) (createOrGetsOf (since w w')))
           = claimCalls k8sPod (k8sVolumes k8sPod)"
proof -
  from newPod_spec [OF assms] obtain pod rn nsUID evs where
    s: "since w w' = EvCreateOrGetNode (k8sNodeName k8sPod) rn
                   # EvCreateOrGet KNamespace (k8sNamespace k8sPod) nsUID
                   # evs @ [EvMutateNode pod CREATE r]"
    and st: "\<exists>s. (r, store w') = MutateNode env pod CREATE s"
    and m: "mutationsOf evs = []"
    and c: "filter (\<lambda>(kind, xid). kind = KPersistentVolumeClaim)
         (map (\<lambda>(kind, xid, uid). (kind, xid)) (createOrGetsOf evs))
        = claimCalls k8sPod (k8sVolumes k8sPod)"
    and l: "map fst (pvcLookupsOf evs) = map UID (Pvcs pod)"
    and p: "Pvcs pod = attachedClaims (createOrGetsOf evs)"
    and q: "StorageRequest pod = foldl (+) 0 (capacitiesOf (pvcLookupsOf evs))"
    by blast
  have "mutationsOf (since w w') = [(pod, CREATE, r)]"
    unfolding s using m by simp
  moreover have "StorageRequest pod = foldl (+) 0 (capacitiesOf (pvcLookupsOf (since w w')))"
    unfolding s using q by simp
  moreover have "map fst (pvcLookupsOf (since w w')) = map UID (Pvcs pod)"
    unfolding s using l by simp
  moreover have "Pvcs pod = attachedClaims (createOrGetsOf (since w w'))"
    unfolding s using p by (simp add: attachedClaims_def)
  moreover have "filter (\<lambda>(kind, xid). kind = KPersistentVolumeClaim)
            (map (\<lambda>(kind, xid, uid). (kind, xid)) (createOrGetsOf (since w w')))
           = claimCalls k8sPod (k8sVolumes k8sPod)"
    unfolding s using c by simp
  ultimately show ?thesis
    using st by blast
qed

lemma demo_since_create:
  "since demoWorld \<lparr>store = demoStoreCreated, trace = demoCreateTrace\<rparr> = demoCreateTrace"
  by (simp add: since_def demoWorld_def)

theorem newPod_storage_request_witness:
  "newPod demoEnv demoPod demoWorld =
     (Inr \<lparr>Uids = [''blank-0'' \<mapsto> ''0x111'']\<rparr>,
      \<lparr>store = demoStoreCreated, trace = demoCreateTrace\<rparr>)
   \<and> mutationsOf demoCreateTrace =
       [(demoCreated, CREATE, Inr \<lparr>Uids = [''blank-0'' \<mapsto> ''0x111'']\<rparr>)]
   \<and> StorageRequest demoCreated = 10
   \<and> capacitiesOf (pvcLookupsOf demoCreateTrace) = [10 :: real]
   \<and> claimCalls demoPod (k8sVolumes demoPod) =
       [(KPersistentVolumeClaim, ''ns:c1''), (KPersistentVolumeClaim, ''ns:c2''),
        (KPersistentVolumeClaim, ''ns:c3'')]"
proof -
  have m: "mutationsOf demoCreateTrace =
       [(demoCreated, CREATE, Inr \<lparr>Uids = [''blank-0'' \<mapsto> ''0x111'']\<rparr>)]"
    by (simp add: demoCreateTrace_def demoVolumeTrace_def)
  have c: "capacitiesOf (pvcLookupsOf demoCreateTrace) = [10 :: real]"
    by (simp add: demoCreateTrace_def demoVolumeTrace_def capacitiesOf_def List.map_filter_simps)
  have v: "claimCalls demoPod (k8sVolumes demoPod) =
       [(KPersistentVolumeClaim, ''ns:c1''), (KPersistentVolumeClaim, ''ns:c2''),
        (KPersistentVolumeClaim, ''ns:c3'')]"
    by (simp add: claimCalls_def List.map_filter_simps demoPod_fields)
  from newPod_storage_request [OF demo_newPod] obtain pod where
    "mutationsOf demoCreateTrace = [(pod, CREATE, Inr \<lparr>Uids = [''blank-0'' \<mapsto> ''0x111'']\<rparr>)]"
    "StorageRequest pod = foldl (+) 0 (capacitiesOf (pvcLookupsOf demoCreateTrace))"
    unfolding demo_since_create by blast
  then have "StorageRequest demoCreated = 10"
    unfolding m c by simp
  then show ?thesis
    using demo_newPod m c v by simp
qed

text \<open>
  Claim C9. Whatever the node, namespace, claim and owner collaborators answer,
  \<^verbatim>\<open>newPod\<close> issues exactly one mutation, the \<^verbatim>\<open>CREATE\<close> at the end of the call, and its
  result is the store's answer to it: \<^verbatim>\<open>newPod\<close> returns an error exactly when the
  store rejects the create. A node lookup that fails leaves \<^verbatim>\<open>Node\<close> unset, an empty
  namespace id leaves \<^verbatim>\<open>Namespace\<close> unset, a claim answered with the empty id is not in
  \<^verbatim>\<open>Pvcs\<close>, and an owner field is set only from a reference that was answered with
  an id.
\<close>

theorem newPod_fails_only_with_create:
  fixes env :: "('s, 'f::{zero,plus}) Env"
  assumes "newPod env k8sPod w = (r, w')"
  shows "\<exists>pod rn nsUID evs s.
      since w w' = EvCreateOrGetNode (k8sNodeName k8sPod) rn
                   # EvCreateOrGet KNamespace (k8sNamespace k8sPod) nsUID
                   # evs @ [EvMutateNode pod CREATE r]
    \<and> mutationsOf evs = []
    \<and> (r, store w') = MutateNode env pod CREATE s
    \<and> Node pod = (case rn of Inl err \<Rightarrow> None
                   | Inr nodeUID \<Rightarrow> Some \<lparr>Xid = k8sNodeName k8sPod, UID = nodeUID\<rparr>)
    \<and> Namespace pod = (if nsUID = [] then None
                        else Some \<lparr>Xid = k8sNamespace k8sPod, UID = nsUID\<rparr>)
    \<and> Pvcs pod = attachedClaims (createOrGetsOf evs)
    \<and> (\<forall>kind \<in> ownerKinds. ownerField kind pod = lastResolved kind (createOrGetsOf evs))"
  using newPod_spec [OF assms] by blast

theorem newPod_fails_only_with_create_witness:
  "newPod demoEnv demoPod demoWorld =
     (Inr \<lparr>Uids = [''blank-0'' \<mapsto> ''0x111'']\<rparr>,
      \<lparr>store = demoStoreCreated, trace = demoCreateTrace\<rparr>)
   \<and> hd demoCreateTrace = EvCreateOrGetNode ''n1'' (Inl (Error ''node not found''))
   \<and> last demoCreateTrace
       = EvMutateNode demoCreated CREATE (Inr \<lparr>Uids = [''blank-0'' \<mapsto> ''0x111'']\<rparr>)
   \<and> Node demoCreated = None
   \<and> map UID (Pvcs demoCreated) = [''0xf'', ''0xf2'']
   \<and> Deployment demoCreated = None"
proof -
  from newPod_fails_only_with_create [OF demo_newPod] obtain pod rn nsUID evs where
    "demoCreateTrace = EvCreateOrGetNode (k8sNodeName demoPod) rn
                   # EvCreateOrGet KNamespace (k8sNamespace demoPod) nsUID
                   # evs @ [EvMutateNode pod CREATE (Inr \<lparr>Uids = [''blank-0'' \<mapsto> ''0x111'']\<rparr>)]"
    "Node pod = (case rn of Inl err \<Rightarrow> None
                   | Inr nodeUID \<Rightarrow> Some \<lparr>Xid = k8sNodeName demoPod, UID = nodeUID\<rparr>)"
    unfolding demo_since_create by blast
  then have "Node demoCreated = None"
    by (auto simp add: demoCreateTrace_def demoVolumeTrace_def)
  then show ?thesis
    using demo_newPod
    by (simp add: demoCreateTrace_def demoVolumeTrace_def demoCreated_def Pod0_def)
qed

subsection \<open>\<^verbatim>\<open>StorePod\<close>\<close>

lemma since_trans:
  assumes "trace w1 = trace w @ evs" and "trace w2 = trace w1 @ evs'"
  shows "since w w2 = since w w1 @ since w1 w2"
  using assms by (simp add: since_def)

lemma populatePodLabelsLoop_spec:
  assumes "populatePodLabelsLoop env podLabels labels w = (labels', w')"
  shows "\<exists>evs. trace w' = trace w @ evs \<and> mutationsOf evs = [] \<and> cascadesOf evs = []"
  using assms
proof (induction podLabels arbitrary: labels w)
  case Nil
  then show ?case by simp
next
  case (Cons kv podLabels)
  obtain key val where kv: "kv = (key, val)" by (cases kv)
  obtain l w1 where g: "callGetLabel env key val w = (l, w1)"
    by (cases "callGetLabel env key val w")
  then have t: "trace w1 = trace w @ [EvGetLabel key val l]"
    by (auto simp add: callGetLabel_def split: prod.splits)
  from Cons.prems kv g
  have "populatePodLabelsLoop env podLabels (labels @ [l]) w1 = (labels', w')"
    by simp
  from Cons.IH [OF this] obtain evs where
    "trace w' = trace w1 @ evs" "mutationsOf evs = []" "cascadesOf evs = []"
    by blast
  then show ?case
    using t by (auto intro!: exI [of _ "EvGetLabel key val l # evs"])
qed

lemma populatePodLabelsLoop_keeps:
  assumes "storeContract env"
    and "populatePodLabelsLoop env podLabels labels w = (labels', w')"
    and "GetUID env x IsPodConst (store w) \<noteq> []"
  shows "GetUID env x IsPodConst (store w') = GetUID env x IsPodConst (store w)"
  using assms(2,3)
proof (induction podLabels arbitrary: labels w)
  case Nil
  then show ?case by simp
next
  case (Cons kv podLabels)
  obtain key val where kv: "kv = (key, val)" by (cases kv)
  obtain l w1 where g: "callGetLabel env key val w = (l, w1)"
    by (cases "callGetLabel env key val w")
  then have s: "store w1 = snd (GetLabel env key val (store w))"
    by (auto simp add: callGetLabel_def split: prod.splits)
  have k: "GetUID env x IsPodConst (store w1) = GetUID env x IsPodConst (store w)"
    using assms(1) Cons.prems(2) unfolding s
    by (simp add: storeContract_def keepsPodIndex_def)
  from Cons.prems kv g
  have "populatePodLabelsLoop env podLabels (labels @ [l]) w1 = (labels', w')"
    by simp
  from Cons.IH [OF this] k Cons.prems(2) show ?case
    by simp
qed

lemma updatePhase_spec:
  fixes env :: "('s, 'f::{zero,plus}) Env"
  assumes "updatePhase env k8sPod xid uid w = (pod, w')"
  shows "\<exists>evs. trace w' = trace w @ evs \<and> mutationsOf evs = [] \<and> cascadesOf evs = []
           \<and> Xid pod = xid \<and> UID pod = uid"
proof -
  obtain nsUID w1 where ns: "callCreateOrGet env KNamespace (k8sNamespace k8sPod) w = (nsUID, w1)"
    by (cases "callCreateOrGet env KNamespace (k8sNamespace k8sPod) w")
  obtain containers metrics w2 where
    c: "callStoreContainers env k8sPod uid nsUID w1 = ((containers, metrics), w2)"
    by (cases "callStoreContainers env k8sPod uid nsUID w1") auto
  then have t2: "trace w2 = trace w1 @ [EvStoreContainers k8sPod uid nsUID containers metrics]"
    by (auto simp add: callStoreContainers_def split: prod.splits)
  obtain labels where
    l: "populatePodLabelsLoop env (k8sLabels k8sPod) [] w2 = (labels, w')"
    and p: "pod = Pod0\<lparr>Xid := xid, UID := uid, Containers := containers,
                  CPURequest := mCPURequest metrics, CPULimit := mCPULimit metrics,
                  MemoryRequest := mMemoryRequest metrics,
                  MemoryLimit := mMemoryLimit metrics, Labels := labels\<rparr>"
    using assms ns c
    by (auto simp add: updatePhase_def populatePodLabels_def Let_def split: prod.splits)
  from populatePodLabelsLoop_spec [OF l] obtain evs where
    e: "trace w' = trace w2 @ evs" "mutationsOf evs = []" "cascadesOf evs = []"
    by blast
  show ?thesis
    using trace_callCreateOrGet [OF ns] t2 e p
    by (auto intro!: exI [of _ "EvCreateOrGet KNamespace (k8sNamespace k8sPod) nsUID
                # EvStoreContainers k8sPod uid nsUID containers metrics # evs"])
qed

lemma updatePhase_keeps:
  fixes env :: "('s, 'f::{zero,plus}) Env"
  assumes "storeContract env"
    and "updatePhase env k8sPod xid uid w = (pod, w')"
    and "GetUID env x IsPodConst (store w) \<noteq> []"
  shows "GetUID env x IsPodConst (store w') = GetUID env x IsPodConst (store w)"
proof -
  obtain nsUID w1 where ns: "callCreateOrGet env KNamespace (k8sNamespace k8sPod) w = (nsUID, w1)"
    by (cases "callCreateOrGet env KNamespace (k8sNamespace k8sPod) w")
  then have s1: "store w1 = snd (CreateOrGetNamespaceByID env (k8sNamespace k8sPod) (store w))"
    by (auto simp add: callCreateOrGet_def split: prod.splits)
  obtain containers metrics w2 where
    c: "callStoreContainers env k8sPod uid nsUID w1 = ((containers, metrics), w2)"
    by (cases "callStoreContainers env k8sPod uid nsUID w1") auto
  then have s2: "store w2
      = snd (StoreAndRetrieveContainersAndMetrics env k8sPod uid nsUID (store w1))"
    by (auto simp add: callStoreContainers_def split: prod.splits)
  obtain labels where
    l: "populatePodLabelsLoop env (k8sLabels k8sPod) [] w2 = (labels, w')"
    using assms(2) ns c
    by (auto simp add: updatePhase_def populatePodLabels_def Let_def split: prod.splits)
  have k1: "GetUID env x IsPodConst (store w1) = GetUID env x IsPodConst (store w)"
    using assms(1,3) unfolding s1 by (simp add: storeContract_def keepsPodIndex_def)
  have k2: "GetUID env x IsPodConst (store w2) = GetUID env x IsPodConst (store w1)"
    using assms(1,3) k1 unfolding s2 by (simp add: storeContract_def keepsPodIndex_def)
  have k3: "GetUID env x IsPodConst (store w') = GetUID env x IsPodConst (store w2)"
    using populatePodLabelsLoop_keeps [OF assms(1) l] assms(3) k1 k2 by simp
  show ?thesis using k1 k2 k3 by simp
qed

lemma StorePod_create_failed:
  fixes env :: "('s, 'f::{zero,plus}) Env"
  assumes "StorePod env k8sPod w = (r, w')"
    and "resolveOrCreate env k8sPod (k8sNamespace k8sPod @ '':'' @ k8sName k8sPod) w = (Inl err, w1)"
  shows "r = Some err \<and> w' = w1"
  using assms by (simp add: StorePod_def Let_def)

lemma Containers_Pod0 [simp]: "Containers Pod0 = []"
  by (simp add: Pod0_def)

lemma newPod_no_cascade:
  fixes env :: "('s, 'f::{zero,plus}) Env"
  assumes "newPod env k8sPod w = (r, w1)"
  shows "cascadesOf (since w w1) = []" and "\<exists>evs. trace w1 = trace w @ evs"
proof -
  from newPod_spec [OF assms] obtain pod rn nsUID evs where
    s: "since w w1 = EvCreateOrGetNode (k8sNodeName k8sPod) rn
                   # EvCreateOrGet KNamespace (k8sNamespace k8sPod) nsUID
                   # evs @ [EvMutateNode pod CREATE r]"
    and c: "cascadesOf evs = []"
    by blast
  show "cascadesOf (since w w1) = []"
    unfolding s using c by simp
  obtain pod' w0 where e: "newPodEntity env k8sPod w = (pod', w0)"
    by (cases "newPodEntity env k8sPod w")
  with assms have m: "callMutateNode env pod' CREATE w0 = (r, w1)"
    by (simp add: newPod_def)
  from newPodEntity_spec [OF e] obtain evs0 where "trace w0 = trace w @ evs0"
    by blast
  then show "\<exists>evs. trace w1 = trace w @ evs"
    using callMutateNode_spec [OF m] by simp
qed

lemma terminate_tail:
  fixes env :: "('s, 'f::{zero,plus}) Env"
  assumes d: "k8sDeletionTimestamp k8sPod = Some deleted" "deleted \<noteq> 0"
    and s: "StorePod env k8sPod w = (r, w')"
    and rc: "resolveOrCreate env k8sPod (k8sNamespace k8sPod @ '':'' @ k8sName k8sPod) w
               = (Inr uid, w1)"
  shows "\<exists>res. trace w' = trace w1 @
             [EvDeleteContainers [] deleted,
              EvMutateNode (Pod0\<lparr>Xid := k8sNamespace k8sPod @ '':'' @ k8sName k8sPod, UID := uid,
                                  EndTime := FormatRFC3339 env deleted\<rparr>) UPDATE res]
           \<and> r = errOf res
           \<and> (res, store w') =
               MutateNode env (Pod0\<lparr>Xid := k8sNamespace k8sPod @ '':'' @ k8sName k8sPod, UID := uid,
                                  EndTime := FormatRFC3339 env deleted\<rparr>) UPDATE
                 (deleteContainersInTerminatedPod env [] deleted (store w1))"
proof -
  let ?xid = "k8sNamespace k8sPod @ '':'' @ k8sName k8sPod"
  let ?pod = "Pod0\<lparr>Xid := ?xid, UID := uid, EndTime := FormatRFC3339 env deleted\<rparr> :: 'f Pod"
  let ?w2 = "callDeleteContainers env [] deleted w1"
  have t: "terminatePhase env ?xid uid deleted w1 = (?pod, ?w2)"
    by (simp add: terminatePhase_def Let_def Pod0_def)
  obtain res w3 where m: "callMutateNode env ?pod UPDATE ?w2 = (res, w3)"
    by (cases "callMutateNode env ?pod UPDATE ?w2")
  have "r = errOf res \<and> w' = w3"
    using s rc t m d by (simp add: StorePod_def Let_def)
  then show ?thesis
    using callMutateNode_spec [OF m] by (auto simp add: callDeleteContainers_def)
qed

text \<open>
  Claim C7. For a pod whose deletion timestamp is set and not zero, the update that
  \<^verbatim>\<open>StorePod\<close> issues carries the external id, the internal id and the end time
  formatted from the deletion timestamp, and every other field at its zero value, so
  the JSON of the mutation has no key but \<^verbatim>\<open>xid\<close>, \<^verbatim>\<open>uid\<close> and \<^verbatim>\<open>endTime\<close>: the mutation
  names no other field of the persisted pod. When the pod resolves, this update
  (after the cascade call) is all the call does, on the id the lookup found, and its
  answer is the result. When the pod does not resolve, \<^verbatim>\<open>newPod\<close> runs first: if the
  create fails the call returns its error, otherwise the same update follows on the
  id the create assigned.
\<close>

theorem StorePod_terminate_minimal_update:
  fixes env :: "('s, 'f::{zero,plus}) Env"
  assumes "k8sDeletionTimestamp k8sPod = Some deleted" and "deleted \<noteq> 0"
    and "StorePod env k8sPod w = (r, w')"
  shows
   "(let xid = k8sNamespace k8sPod @ '':'' @ k8sName k8sPod;
         terminated = (\<lambda>uid.
           \<lparr>Xid = xid, UID = uid, IsPod = False, Name = [], StartTime = [],
            EndTime = FormatRFC3339 env deleted, Containers = [], Pods = [], Count = 0,
            Node = None, Namespace = None, Deployment = None, Replicaset = None,
            Statefulset = None, Daemonset = None, Job = None, Pvcs = [], CPURequest = 0,
            CPULimit = 0, MemoryRequest = 0, MemoryLimit = 0, StorageRequest = 0, Type = [],
            Cid = [], Labels = []\<rparr>);
         found = GetUID env xid IsPodConst (store w)
     in (\<forall>uid. podJSONKeys (terminated uid)
                 = ''xid'' # (if uid = [] then [] else [''uid''])
                     @ (if FormatRFC3339 env deleted = [] then [] else [''endTime'']))
      \<and> (found \<noteq> [] \<longrightarrow>
            (\<exists>res. since w w' = [EvDeleteContainers [] deleted,
                                  EvMutateNode (terminated found) UPDATE res]
                  \<and> (res, store w') =
                      MutateNode env (terminated found) UPDATE
                        (deleteContainersInTerminatedPod env [] deleted (store w))
                  \<and> r = errOf res))
      \<and> (found = [] \<longrightarrow>
            (case newPod env k8sPod w of
               (Inl err, w1) \<Rightarrow> r = Some err \<and> w' = w1
             | (Inr assigned, w1) \<Rightarrow>
                 (\<exists>res. since w1 w' = [EvDeleteContainers [] deleted,
                                        EvMutateNode (terminated (uidsAt assigned ''blank-0''))
                                          UPDATE res]
                       \<and> r = errOf res))))"
proof -
  let ?xid = "k8sNamespace k8sPod @ '':'' @ k8sName k8sPod"
  let ?found = "GetUID env ?xid IsPodConst (store w)"
  let ?ended = "\<lambda>uid. \<lparr>Xid = ?xid, UID = uid, IsPod = False, Name = [], StartTime = [],
            EndTime = FormatRFC3339 env deleted, Containers = [], Pods = [], Count = 0,
            Node = None, Namespace = None, Deployment = None, Replicaset = None,
            Statefulset = None, Daemonset = None, Job = None, Pvcs = [], CPURequest = 0,
            CPULimit = 0, MemoryRequest = 0, MemoryLimit = 0, StorageRequest = 0, Type = [],
            Cid = [], Labels = []\<rparr> :: 'f Pod"
  have p: "Pod0\<lparr>Xid := ?xid, UID := uid, EndTime := FormatRFC3339 env deleted\<rparr> = ?ended uid"
    for uid
    by (simp add: Pod0_def)
  have k: "\<forall>uid. podJSONKeys (?ended uid)
                 = ''xid'' # (if uid = [] then [] else [''uid''])
                     @ (if FormatRFC3339 env deleted = [] then [] else [''endTime''])"
    by (simp add: podJSONKeys_def)
  have a: "\<exists>res. since w w' = [EvDeleteContainers [] deleted, EvMutateNode (?ended ?found) UPDATE res]
                  \<and> (res, store w') =
                      MutateNode env (?ended ?found) UPDATE
                        (deleteContainersInTerminatedPod env [] deleted (store w))
                  \<and> r = errOf res"
    if f: "?found \<noteq> []"
  proof -
    have rc: "resolveOrCreate env k8sPod ?xid w = (Inr ?found, w)"
      using f by (simp add: resolveOrCreate_def Let_def)
    from terminate_tail [OF assms(1,2,3) rc] show ?thesis
      unfolding p by (auto simp add: since_def)
  qed
  have b: "case newPod env k8sPod w of
               (Inl err, w1) \<Rightarrow> r = Some err \<and> w' = w1
             | (Inr assigned, w1) \<Rightarrow>
                 (\<exists>res. since w1 w' = [EvDeleteContainers [] deleted,
                                        EvMutateNode (?ended (uidsAt assigned ''blank-0''))
                                          UPDATE res]
                       \<and> r = errOf res)"
    if f: "?found = []"
  proof (cases "newPod env k8sPod w")
    case (Pair cr w1)
    show ?thesis
    proof (cases cr)
      case (Inl err)
      have "resolveOrCreate env k8sPod ?xid w = (Inl err, w1)"
        using f Pair Inl by (simp add: resolveOrCreate_def Let_def)
      from StorePod_create_failed [OF assms(3) this] show ?thesis
        using Pair Inl by simp
    next
      case (Inr assigned)
      have rc: "resolveOrCreate env k8sPod ?xid w = (Inr (uidsAt assigned ''blank-0''), w1)"
        using f Pair Inr by (simp add: resolveOrCreate_def Let_def)
      from terminate_tail [OF assms(1,2,3) rc] show ?thesis
        unfolding p using Pair Inr by (auto simp add: since_def)
    qed
  qed
  show ?thesis
    unfolding Let_def using k a b by blast
qed

lemma demo_StorePod_deleted:
  "StorePod demoEnv demoDeleted demoWorld =
     (None, \<lparr>store = demoStore,
             trace = [EvDeleteContainers [] 2,
                      EvMutateNode demoTerminated UPDATE (Inr \<lparr>Uids = Map.empty\<rparr>)]\<rparr>)"
  by (simp add: StorePod_def resolveOrCreate_def terminatePhase_def demoDeleted_def
        demoTerminated_def demo_simps)

theorem StorePod_terminate_minimal_update_witness:
  "k8sDeletionTimestamp demoDeleted = Some 2
   \<and> StorePod demoEnv demoDeleted demoWorld =
     (None, \<lparr>store = demoStore,
             trace = [EvDeleteContainers [] 2,
                      EvMutateNode demoTerminated UPDATE (Inr \<lparr>Uids = Map.empty\<rparr>)]\<rparr>)
   \<and> podJSONKeys demoTerminated = [''xid'', ''uid'', ''endTime'']
   \<and> GetUID demoEnv ''ns:p1'' IsPodConst (store demoWorld) = ''0x1''"
proof -
  have d: "k8sDeletionTimestamp demoDeleted = Some 2" "(2 :: int) \<noteq> 0"
    by (simp_all add: demoDeleted_def)
  have t: "demoTerminated =
           \<lparr>Xid = ''ns:p1'', UID = ''0x1'', IsPod = False, Name = [], StartTime = [],
            EndTime = ''Tss'', Containers = [], Pods = [], Count = 0,
            Node = None, Namespace = None, Deployment = None, Replicaset = None,
            Statefulset = None, Daemonset = None, Job = None, Pvcs = [], CPURequest = 0,
            CPULimit = 0, MemoryRequest = 0, MemoryLimit = 0, StorageRequest = 0, Type = [],
            Cid = [], Labels = []\<rparr>"
    by (simp add: demoTerminated_def Pod0_def)
  have g: "GetUID demoEnv ''ns:p1'' IsPodConst (store demoWorld) = ''0x1''"
    by (simp add: demo_simps)
  have x: "k8sNamespace demoDeleted @ '':'' @ k8sName demoDeleted = ''ns:p1''"
    by (simp add: demoDeleted_def demoPod_fields)
  have f: "FormatRFC3339 demoEnv 2 = ''Tss''"
    by (simp add: demo_simps)
  from StorePod_terminate_minimal_update [OF d demo_StorePod_deleted]
  have "podJSONKeys demoTerminated = [''xid'', ''uid'', ''endTime'']"
    unfolding Let_def x f t [symmetric] g
    by (auto dest!: spec [of _ "''0x1''"] simp add: t)
  then show ?thesis
    using d(1) demo_StorePod_deleted g by simp
qed

text \<open>
  Claim C8. For a pod whose deletion timestamp is set and not zero, every cascade
  call of \<^verbatim>\<open>StorePod\<close> is handed the empty container list: the entity whose
  \<^verbatim>\<open>Containers\<close> are passed was built a line earlier from the ids and the end time
  alone. There is one such call, unless the pod did not resolve and its create
  failed, in which case there is none. What the store holds as the pod's containers
  plays no part.
\<close>

theorem StorePod_terminate_cascade_empty:
  fixes env :: "('s, 'f::{zero,plus}) Env"
  assumes "k8sDeletionTimestamp k8sPod = Some deleted" and "deleted \<noteq> 0"
    and "StorePod env k8sPod w = (r, w')"
  shows "cascadesOf (since w w') =
           (if GetUID env (k8sNamespace k8sPod @ '':'' @ k8sName k8sPod) IsPodConst (store w) = []
               \<and> isl (fst (newPod env k8sPod w))
            then [] else [([], deleted)])"
proof -
  let ?xid = "k8sNamespace k8sPod @ '':'' @ k8sName k8sPod"
  let ?found = "GetUID env ?xid IsPodConst (store w)"
  show ?thesis
  proof (cases "?found = []")
    case False
    then have rc: "resolveOrCreate env k8sPod ?xid w = (Inr ?found, w)"
      by (simp add: resolveOrCreate_def Let_def)
    from terminate_tail [OF assms rc] show ?thesis
      using False by (auto simp add: since_def)
  next
    case True
    obtain cr w1 where n: "newPod env k8sPod w = (cr, w1)"
      by (cases "newPod env k8sPod w")
    note nc = newPod_no_cascade [OF n]
    show ?thesis
    proof (cases cr)
      case (Inl err)
      have "resolveOrCreate env k8sPod ?xid w = (Inl err, w1)"
        using True n Inl by (simp add: resolveOrCreate_def Let_def)
      from StorePod_create_failed [OF assms(3) this] show ?thesis
        using True n Inl nc(1) by simp
    next
      case (Inr assigned)
      have rc: "resolveOrCreate env k8sPod ?xid w = (Inr (uidsAt assigned ''blank-0''), w1)"
        using True n Inr by (simp add: resolveOrCreate_def Let_def)
      from terminate_tail [OF assms rc] obtain res where
        t: "trace w' = trace w1 @
             [EvDeleteContainers [] deleted,
              EvMutateNode (Pod0\<lparr>Xid := ?xid, UID := uidsAt assigned ''blank-0'',
                                  EndTime := FormatRFC3339 env deleted\<rparr>) UPDATE res]"
        by blast
      from nc(2) obtain evs where e: "trace w1 = trace w @ evs"
        by blast
      have "since w w' = since w w1 @ since w1 w'"
        using e t by (rule since_trans)
      then show ?thesis
        using nc(1) t n Inr by (simp add: since_append [OF t])
    qed
  qed
qed

theorem StorePod_terminate_cascade_empty_witness:
  "k8sDeletionTimestamp demoDeleted = Some 2
   \<and> GetUID demoEnv ''ns:p1'' IsPodConst (store demoWorld) = ''0x1''
   \<and> cascadesOf (since demoWorld (snd (StorePod demoEnv demoDeleted demoWorld))) = [([], 2)]"
proof -
  have d: "k8sDeletionTimestamp demoDeleted = Some 2" "(2 :: int) \<noteq> 0"
    by (simp_all add: demoDeleted_def)
  have g: "GetUID demoEnv ''ns:p1'' IsPodConst (store demoWorld) = ''0x1''"
    by (simp add: demo_simps)
  have x: "k8sNamespace demoDeleted @ '':'' @ k8sName demoDeleted = ''ns:p1''"
    by (simp add: demoDeleted_def demoPod_fields)
  from StorePod_terminate_cascade_empty [OF d demo_StorePod_deleted]
  have "cascadesOf (since demoWorld (snd (StorePod demoEnv demoDeleted demoWorld))) = [([], 2)]"
    unfolding x g by (simp add: demo_StorePod_deleted)
  then show ?thesis
    using d(1) g by simp
qed

subsection \<open>Two calls in a row\<close>

lemma update_tail:
  fixes env :: "('s, 'f::{zero,plus}) Env"
  assumes nd: "IsZero (k8sDeletionTimestamp k8sPod)"
    and s: "StorePod env k8sPod w = (r, w')"
    and rc: "resolveOrCreate env k8sPod (k8sNamespace k8sPod @ '':'' @ k8sName k8sPod) w
               = (Inr uid, wc)"
  shows "\<exists>pod evs res. trace w' = trace wc @ evs @ [EvMutateNode pod UPDATE res]
           \<and> mutationsOf evs = []
           \<and> Xid pod = k8sNamespace k8sPod @ '':'' @ k8sName k8sPod \<and> UID pod = uid
           \<and> r = errOf res
           \<and> (storeContract env \<longrightarrow>
                (\<forall>x. GetUID env x IsPodConst (store wc) \<noteq> []
                   \<longrightarrow> GetUID env x IsPodConst (store w') = GetUID env x IsPodConst (store wc)))"
proof -
  let ?xid = "k8sNamespace k8sPod @ '':'' @ k8sName k8sPod"
  obtain pod w2 where u: "updatePhase env k8sPod ?xid uid wc = (pod, w2)"
    by (cases "updatePhase env k8sPod ?xid uid wc")
  obtain res w3 where m: "callMutateNode env pod UPDATE w2 = (res, w3)"
    by (cases "callMutateNode env pod UPDATE w2")
  have e: "r = errOf res \<and> w' = w3"
    using s rc u m nd
    by (cases "k8sDeletionTimestamp k8sPod") (simp_all add: StorePod_def Let_def)
  from updatePhase_spec [OF u] obtain evs where
    ev: "trace w2 = trace wc @ evs" "mutationsOf evs = []" "Xid pod = ?xid" "UID pod = uid"
    by blast
  note ms = callMutateNode_spec [OF m]
  have k: "GetUID env x IsPodConst (store w') = GetUID env x IsPodConst (store wc)"
    if c: "storeContract env" and f: "GetUID env x IsPodConst (store wc) \<noteq> []" for x
  proof -
    have 1: "GetUID env x IsPodConst (store w2) = GetUID env x IsPodConst (store wc)"
      using updatePhase_keeps [OF c u f] .
    have "store w3 = snd (MutateNode env pod UPDATE (store w2))"
      using ms by (metis snd_conv)
    then have "GetUID env x IsPodConst (store w3) = GetUID env x IsPodConst (store w2)"
      using c f 1 by (simp add: storeContract_def keepsPodIndex_def)
    then show ?thesis
      using e 1 by simp
  qed
  have "trace w' = trace wc @ evs @ [EvMutateNode pod UPDATE res]"
    using e ms ev(1) by simp
  then show ?thesis
    using ev(2,3,4) e k by blast
qed

text \<open>
  Claim C1. Let the store keep its contract, the pod carry no deletion marker, its
  external id \<^verbatim>\<open>namespace:name\<close> resolve to nothing, and the create of the first call
  succeed. Then after the first call the lookup finds the id that create assigned,
  whether or not the first call's update succeeded; the second call makes one
  mutation, an \<^verbatim>\<open>UPDATE\<close> on that id and external id, and returns its answer; over
  both calls there is exactly one \<^verbatim>\<open>CREATE\<close>, of a pod entity with this external id;
  and the lookup still finds the same id after the second call.
\<close>

theorem StorePod_twice_creates_once:
  fixes env :: "('s, 'f::{zero,plus}) Env"
  assumes c: "storeContract env"
    and nd: "IsZero (k8sDeletionTimestamp k8sPod)"
    and absent: "GetUID env (k8sNamespace k8sPod @ '':'' @ k8sName k8sPod) IsPodConst (store w) = []"
    and created: "fst (newPod env k8sPod w) = Inr assigned"
    and first: "StorePod env k8sPod w = (r1, w1)"
    and second: "StorePod env k8sPod w1 = (r2, w2)"
  shows "uidsAt assigned ''blank-0'' \<noteq> []
       \<and> GetUID env (k8sNamespace k8sPod @ '':'' @ k8sName k8sPod) IsPodConst (store w1)
           = uidsAt assigned ''blank-0''
       \<and> (\<exists>pod res. mutationsOf (since w1 w2) = [(pod, UPDATE, res)]
             \<and> Xid pod = k8sNamespace k8sPod @ '':'' @ k8sName k8sPod
             \<and> UID pod = uidsAt assigned ''blank-0''
             \<and> r2 = errOf res)
       \<and> (\<exists>pod. filter (\<lambda>(pod, m, res). m = CREATE) (mutationsOf (since w w2))
                    = [(pod, CREATE, Inr assigned)]
             \<and> Xid pod = k8sNamespace k8sPod @ '':'' @ k8sName k8sPod \<and> IsPod pod)
       \<and> GetUID env (k8sNamespace k8sPod @ '':'' @ k8sName k8sPod) IsPodConst (store w2)
           = uidsAt assigned ''blank-0''"
proof -
  let ?xid = "k8sNamespace k8sPod @ '':'' @ k8sName k8sPod"
  let ?u = "uidsAt assigned ''blank-0''"
  obtain wc where n: "newPod env k8sPod w = (Inr assigned, wc)"
    using created by (cases "newPod env k8sPod w") simp
  from newPod_spec [OF n] obtain pod rn nsUID evs s where
    sc: "since w wc = EvCreateOrGetNode (k8sNodeName k8sPod) rn
                   # EvCreateOrGet KNamespace (k8sNamespace k8sPod) nsUID
                   # evs @ [EvMutateNode pod CREATE (Inr assigned)]"
    and st: "(Inr assigned, store wc) = MutateNode env pod CREATE s"
    and me: "mutationsOf evs = []"
    and ip: "IsPod pod" "Xid pod = ?xid"
    by blast
  from newPod_no_cascade(2) [OF n] obtain evc where tc: "trace wc = trace w @ evc"
    by blast
  have mc: "mutationsOf (since w wc) = [(pod, CREATE, Inr assigned)]"
    unfolding sc using me by simp
  have a: "?u \<noteq> []" "GetUID env ?xid IsPodConst (store wc) = ?u"
    using c ip st unfolding storeContract_def by metis+
  have rc1: "resolveOrCreate env k8sPod ?xid w = (Inr ?u, wc)"
    using absent n by (simp add: resolveOrCreate_def Let_def)
  from update_tail [OF nd first rc1] obtain pod1 evs1 res1 where
    t1: "trace w1 = trace wc @ evs1 @ [EvMutateNode pod1 UPDATE res1]"
    and m1: "mutationsOf evs1 = []"
    and k1: "storeContract env \<longrightarrow>
                (\<forall>x. GetUID env x IsPodConst (store wc) \<noteq> []
                   \<longrightarrow> GetUID env x IsPodConst (store w1) = GetUID env x IsPodConst (store wc))"
    by blast
  have g1: "GetUID env ?xid IsPodConst (store w1) = ?u"
    using k1 c a by simp
  have rc2: "resolveOrCreate env k8sPod ?xid w1 = (Inr ?u, w1)"
    using g1 a(1) by (simp add: resolveOrCreate_def Let_def)
  from update_tail [OF nd second rc2] obtain pod2 evs2 res2 where
    t2: "trace w2 = trace w1 @ evs2 @ [EvMutateNode pod2 UPDATE res2]"
    and m2: "mutationsOf evs2 = []"
    and p2: "Xid pod2 = ?xid" "UID pod2 = ?u" "r2 = errOf res2"
    and k2: "storeContract env \<longrightarrow>
                (\<forall>x. GetUID env x IsPodConst (store w1) \<noteq> []
                   \<longrightarrow> GetUID env x IsPodConst (store w2) = GetUID env x IsPodConst (store w1))"
    by blast
  have g2: "GetUID env ?xid IsPodConst (store w2) = ?u"
    using k2 c g1 a(1) by simp
  have s12: "mutationsOf (since w1 w2) = [(pod2, UPDATE, res2)]"
    using m2 by (simp add: since_append [OF t2])
  have sc1: "mutationsOf (since wc w1) = [(pod1, UPDATE, res1)]"
    using m1 by (simp add: since_append [OF t1])
  have "since w w1 = since w wc @ since wc w1"
    using tc t1 by (rule since_trans)
  moreover have "trace w1 = trace w @ (evc @ evs1 @ [EvMutateNode pod1 UPDATE res1])"
    using tc t1 by simp
  then have "since w w2 = since w w1 @ since w1 w2"
    using t2 by (rule since_trans)
  ultimately have "mutationsOf (since w w2)
      = [(pod, CREATE, Inr assigned), (pod1, UPDATE, res1), (pod2, UPDATE, res2)]"
    using mc sc1 s12 by simp
  then have f: "filter (\<lambda>(pod, m, res). m = CREATE) (mutationsOf (since w w2))
                  = [(pod, CREATE, Inr assigned)]"
    by simp
  show ?thesis
    using a(1) g1 s12 p2 f ip g2 by blast
qed

lemma demo_storeContract: "storeContract demoEnv"
  by (auto simp add: storeContract_def keepsPodIndex_def demoEnv_fields demoMutateNode_def
        demoCreateOrGet_def IsPodConst_def uidsAt_def freshUID_def lookupUID_def)

lemma demo_xid: "k8sNamespace demoPod @ '':'' @ k8sName demoPod = ''ns:p3''"
  by (simp add: demoPod_fields)

lemma demo_absent: "GetUID demoEnv ''ns:p3'' IsPodConst (store demoWorld) = []"
  by (simp add: demo_simps)

lemma demo_updatePhase:
  "updatePhase demoEnv demoPod ''ns:p3'' ''0x111'' \<lparr>store = demoStoreCreated, trace = tr\<rparr>
   = (demoUpdated, \<lparr>store = demoStoreCreated, trace = tr @ butlast demoUpdateTrace\<rparr>)"
  by (simp add: updatePhase_def populatePodLabels_def demoUpdateTrace_def demoUpdated_def
        demoEnv_fields demoPod_fields demoCreateOrGet_def lookupUID_def
        demoStoreCreated_def demoStore_def Let_def callCreateOrGet_def
        callStoreContainers_def callGetLabel_def Pod0_def)

lemma demo_update:
  "callMutateNode demoEnv demoUpdated UPDATE
     \<lparr>store = demoStoreCreated, trace = tr @ butlast demoUpdateTrace\<rparr>
   = (Inr \<lparr>Uids = Map.empty\<rparr>, \<lparr>store = demoStoreCreated, trace = tr @ demoUpdateTrace\<rparr>)"
  by (simp add: callMutateNode_def demoEnv_fields demoMutateNode_def demoUpdateTrace_def)

lemma demo_StorePod_first:
  "StorePod demoEnv demoPod demoWorld =
     (None, \<lparr>store = demoStoreCreated, trace = demoCreateTrace @ demoUpdateTrace\<rparr>)"
proof -
  have rc: "resolveOrCreate demoEnv demoPod ''ns:p3'' demoWorld
              = (Inr ''0x111'', \<lparr>store = demoStoreCreated, trace = demoCreateTrace\<rparr>)"
    by (simp add: resolveOrCreate_def demo_absent demo_newPod uidsAt_def)
  show ?thesis
    unfolding StorePod_def demo_xid Let_def rc
    by (simp add: demoPod_fields demo_updatePhase demo_update)
qed

lemma demo_StorePod_second:
  "StorePod demoEnv demoPod \<lparr>store = demoStoreCreated, trace = demoCreateTrace @ demoUpdateTrace\<rparr> =
     (None, \<lparr>store = demoStoreCreated,
             trace = (demoCreateTrace @ demoUpdateTrace) @ demoUpdateTrace\<rparr>)"
proof -
  have g: "GetUID demoEnv ''ns:p3'' IsPodConst demoStoreCreated = ''0x111''"
    by (simp add: demoEnv_fields IsPodConst_def lookupUID_def demoStoreCreated_def)
  have rc: "resolveOrCreate demoEnv demoPod ''ns:p3''
              \<lparr>store = demoStoreCreated, trace = demoCreateTrace @ demoUpdateTrace\<rparr>
              = (Inr ''0x111'', \<lparr>store = demoStoreCreated, trace = demoCreateTrace @ demoUpdateTrace\<rparr>)"
    by (simp add: resolveOrCreate_def g)
  show ?thesis
    unfolding StorePod_def demo_xid Let_def rc
    by (simp add: demoPod_fields demo_updatePhase demo_update del: append_assoc)
qed

theorem StorePod_twice_creates_once_witness:
  "storeContract demoEnv
   \<and> GetUID demoEnv ''ns:p3'' IsPodConst (store demoWorld) = []
   \<and> fst (newPod demoEnv demoPod demoWorld) = Inr \<lparr>Uids = [''blank-0'' \<mapsto> ''0x111'']\<rparr>
   \<and> GetUID demoEnv ''ns:p3'' IsPodConst demoStoreCreated = ''0x111''
   \<and> StorePod demoEnv demoPod (snd (StorePod demoEnv demoPod demoWorld)) =
       (None, \<lparr>store = demoStoreCreated,
               trace = (demoCreateTrace @ demoUpdateTrace) @ demoUpdateTrace\<rparr>)
   \<and> filter (\<lambda>(xid, uid). xid = ''ns:p3'') (podUIDs demoStoreCreated) = [(''ns:p3'', ''0x111'')]"
proof -
  have nd: "IsZero (k8sDeletionTimestamp demoPod)"
    by (simp add: demoPod_fields)
  have ab: "GetUID demoEnv (k8sNamespace demoPod @ '':'' @ k8sName demoPod) IsPodConst
              (store demoWorld) = []"
    unfolding demo_xid by (rule demo_absent)
  have cr: "fst (newPod demoEnv demoPod demoWorld) = Inr \<lparr>Uids = [''blank-0'' \<mapsto> ''0x111'']\<rparr>"
    by (simp add: demo_newPod)
  have u: "uidsAt \<lparr>Uids = [''blank-0'' \<mapsto> ''0x111'']\<rparr> ''blank-0'' = ''0x111''"
    by (simp add: uidsAt_def)
  from StorePod_twice_creates_once
         [OF demo_storeContract nd ab cr demo_StorePod_first demo_StorePod_second]
  have "GetUID demoEnv ''ns:p3'' IsPodConst demoStoreCreated = ''0x111''"
    unfolding demo_xid u by simp
  moreover have "filter (\<lambda>(xid, uid). xid = ''ns:p3'') (podUIDs demoStoreCreated)
                   = [(''ns:p3'', ''0x111'')]"
    by (simp add: demoStoreCreated_def demoStore_def)
  ultimately show ?thesis
    using demo_storeContract demo_absent cr demo_StorePod_first demo_StorePod_second by simp
qed

end
